theory Spec2Isabelle
  imports Complex_Main "HOL-Library.Word" "HOL-Library.Signed_Division"
begin

section \<open>The now-playing widget of Clementine (src/widgets/nowplayingwidget.cpp)\<close>

text \<open>
  The widget is a class with mutable members, driven by slots and event handlers.
  Each member function becomes a function from the widget's state to its new state.
  A member \<open>foo_\<close> of the class is the field \<open>foo\<close> of the record (a name may not
  end in an underscore here). Dereferencing a null pointer is an error value.
  Sizes are \<open>int\<close>, holding the value of a 32-bit C++ \<open>int\<close>. The sums and
  differences that the painting code computes on them wrap around at 32 bits
  (\<open>add32\<close>, \<open>sub32\<close>, \<open>neg32\<close>), and its one division rounds toward zero
  (\<open>sdiv\<close>). The layout code only adds 4 to the smaller of 260 and the width, which
  cannot leave the range. The 64-bit id of a cover request is a word.

  The collaborators whose code is not part of this file (the cover loader, the library
  backend, the song class, the toolkit's text and image functions) are taken as
  parameters, collected in the record \<open>env\<close>, or as logs of the calls made to them.
\<close>

subsection \<open>Constants\<close>

definition kSettingsGroup :: string where
  "kSettingsGroup = ''NowPlayingWidget''"

definition kHypnotoadPath :: string where
  "kHypnotoadPath = '':/hypnotoad.gif''"

definition kPadding :: int where
  "kPadding = 2"

definition kGradientHead :: int where
  "kGradientHead = 40"

definition kGradientTail :: int where
  "kGradientTail = 20"

definition kMaxCoverSize :: int where
  "kMaxCoverSize = 260"

definition kBottomOffset :: int where
  "kBottomOffset = 0"

definition kTopBorder :: int where
  "kTopBorder = 4"

subsection \<open>Arithmetic on a 32-bit int\<close>

text \<open>
  The value that a 32-bit two's complement \<open>int\<close> holds after a result has wrapped
  around, and the three operations of the painting code with that wrap-around.
\<close>

definition int32 :: "int \<Rightarrow> int" where
  "int32 x = (x + 2147483648) mod 4294967296 - 2147483648"

definition add32 :: "int \<Rightarrow> int \<Rightarrow> int" where
  "add32 a b = int32 (a + b)"

definition sub32 :: "int \<Rightarrow> int \<Rightarrow> int" where
  "sub32 a b = int32 (a - b)"

definition neg32 :: "int \<Rightarrow> int" where
  "neg32 a = int32 (- a)"

subsection \<open>Data\<close>

text \<open>
  The enum \<open>Mode\<close>. \<open>SetMode(int)\<close> and the constructor cast an arbitrary int to it,
  so a value that is neither enumerator can be stored; the two \<open>switch\<close> statements
  then take no branch. The numeric values of the enumerators are declared in the
  header: the casts are parameters (\<open>Mode_of_int\<close>, \<open>int_of_Mode\<close> below).
\<close>

datatype Mode = SmallSongDetails | LargeSongDetails | Mode_other int

text \<open>The fields of a song that this file reads or writes.\<close>

record Song =
  title :: string
  artist :: string
  album :: string
  art_manual :: string
  art_automatic :: string
  filename :: string

text \<open>An image is null or has some content, named by a string.\<close>

datatype QImage = QImage_null | QImage_data string

fun QImage_isNull :: "QImage \<Rightarrow> bool" where
  "QImage_isNull QImage_null = True"
| "QImage_isNull (QImage_data d) = False"

datatype QColor = QColor int int int int

definition Qt_black :: QColor where
  "Qt_black = QColor 0 0 0 255"

datatype QLinearGradient = QLinearGradient int int int int "(int \<times> QColor) list"

datatype QMovie = QMovie string

record QTextDocument =
  textWidth :: int
  defaultStyleSheet :: string
  html :: string

text \<open>
  A pixmap is null, comes from an image, or is a canvas of a given size holding the
  painter commands that were executed on it. Painting is a list of commands: what a
  command puts on the screen is the toolkit's business.
\<close>

datatype QPixmap =
    QPixmap_null
  | QPixmap_image string
  | QPixmap_canvas int int "paint_cmd list"
and paint_cmd =
    fill QColor
  | drawPixmap int int int int QPixmap
  | drawPixmap_at int int QPixmap
  | translate int int
  | drawContents QTextDocument
  | fillRect int int int int QColor
  | fillRect_gradient int int int int QLinearGradient
  | setOpacity real

fun QPixmap_isNull :: "QPixmap \<Rightarrow> bool" where
  "QPixmap_isNull QPixmap_null = True"
| "QPixmap_isNull (QPixmap_image d) = False"
| "QPixmap_isNull (QPixmap_canvas w h cs) = False"

text \<open>\<open>QPixmap::fromImage\<close>: a null image gives a null pixmap.\<close>

fun QPixmap_fromImage :: "QImage \<Rightarrow> QPixmap" where
  "QPixmap_fromImage QImage_null = QPixmap_null"
| "QPixmap_fromImage (QImage_data d) = QPixmap_image d"

text \<open>\<open>QPixmap(size)\<close>: the pixmap is null unless both sides are positive.\<close>

definition QPixmap_of_size :: "int \<Rightarrow> int \<Rightarrow> QPixmap" where
  "QPixmap_of_size w h = (if 0 < w \<and> 0 < h then QPixmap_canvas w h [] else QPixmap_null)"

text \<open>A painter on a pixmap appends its commands; on a null pixmap it paints nothing.\<close>

fun paint_on :: "QPixmap \<Rightarrow> paint_cmd list \<Rightarrow> QPixmap" where
  "paint_on (QPixmap_canvas w h cs) ds = QPixmap_canvas w h (cs @ ds)"
| "paint_on p ds = p"

text \<open>
  A timeline: the fields this file sets or reads, and the number of calls of
  \<open>start()\<close>. After \<open>start()\<close> the timeline is running.
\<close>

datatype TimeLineState = NotRunning | Paused | Running

datatype Direction = Forward | Backward

record QTimeLine =
  duration :: int
  tl_state :: TimeLineState
  direction :: Direction
  startFrame :: int
  endFrame :: int
  start_calls :: nat

definition QTimeLine_new :: "int \<Rightarrow> QTimeLine" where
  "QTimeLine_new d = \<lparr>duration = d, tl_state = NotRunning, direction = Forward,
     startFrame = 0, endFrame = 0, start_calls = 0\<rparr>"

definition setFrameRange :: "int \<Rightarrow> int \<Rightarrow> QTimeLine \<Rightarrow> QTimeLine" where
  "setFrameRange a b t = t\<lparr>startFrame := a, endFrame := b\<rparr>"

definition setDirection :: "Direction \<Rightarrow> QTimeLine \<Rightarrow> QTimeLine" where
  "setDirection d t = t\<lparr>direction := d\<rparr>"

definition start :: "QTimeLine \<Rightarrow> QTimeLine" where
  "start t = t\<lparr>tl_state := Running, start_calls := Suc (start_calls t)\<rparr>"

text \<open>The persistent settings: a map from \<open>group/key\<close> to a variant.\<close>

datatype QVariant = QVariant_int int | QVariant_bool bool

fun toInt :: "QVariant \<Rightarrow> int" where
  "toInt (QVariant_int i) = i"
| "toInt (QVariant_bool b) = (if b then 1 else 0)"

fun toBool :: "QVariant \<Rightarrow> bool" where
  "toBool (QVariant_bool b) = b"
| "toBool (QVariant_int i) = (i \<noteq> 0)"

type_synonym QSettings = "string \<rightharpoonup> QVariant"

definition settings_key :: "string \<Rightarrow> string \<Rightarrow> string" where
  "settings_key g k = g @ ''/'' @ k"

definition settings_value :: "QSettings \<Rightarrow> string \<Rightarrow> string \<Rightarrow> QVariant \<Rightarrow> QVariant" where
  "settings_value s g k d = (case s (settings_key g k) of None \<Rightarrow> d | Some v \<Rightarrow> v)"

definition settings_setValue :: "string \<Rightarrow> string \<Rightarrow> QVariant \<Rightarrow> QSettings \<Rightarrow> QSettings" where
  "settings_setValue g k v s = s(settings_key g k \<mapsto> v)"

text \<open>
  The cover loaders run in background threads. A thread's worker is null until the
  thread has initialised it; the worker is the log of the calls made to it, the
  latest last. The library backend is the log of the calls made to it.
\<close>

datatype loader_call =
    SetDesiredHeight int
  | SetDefaultOutputImage QImage
  | SetPadOutputImage bool
  | LoadImageAsync Song

type_synonym AlbumCoverLoader = "loader_call list"

type_synonym BackgroundThread = "AlbumCoverLoader option"

datatype loader_kind = CoverLoader | KittenLoader

datatype backend_call = UpdateManualAlbumArtAsync string string string

type_synonym LibraryBackend = "backend_call list"

datatype CoverFromURLDialog = CoverFromURLDialog

text \<open>The slots an action of the menu is connected to.\<close>

datatype slot =
    SLOT_SetMode int
  | SLOT_LoadCoverFromFile
  | SLOT_LoadCoverFromURL
  | SLOT_SearchCover
  | SLOT_UnsetCover
  | SLOT_ZoomCover
  | SLOT_ShowAboveStatusBar

record QAction =
  icon :: "string option"
  action_text :: string
  checkable :: bool
  checked :: bool
  enabled :: bool
  connected :: slot

definition QAction_new :: "string option \<Rightarrow> string \<Rightarrow> slot \<Rightarrow> QAction" where
  "QAction_new i t c = \<lparr>icon = i, action_text = t, checkable = False, checked = False,
     enabled = True, connected = c\<rparr>"

text \<open>An entry of the menu: a separator, or one of the widget's actions.\<close>

datatype menu_entry =
    separator
  | mode_action Mode
  | choose_cover_action
  | download_cover_action
  | search_for_cover_action
  | unset_cover_action
  | show_cover_action
  | above_statusbar_entry

datatype error = NullWorker | NullThread | NullBackend

text \<open>
  The parameters: what the code of other files and of the toolkit computes.
  \<^item> \<open>HAVE_LIBLASTFM\<close>: whether the macro is defined.
  \<^item> \<open>tr\<close>: the translation of a text of the user interface.
  \<^item> \<open>Mode_of_int\<close>, \<open>int_of_Mode\<close>: the casts between \<open>Mode\<close> and \<open>int\<close>.
  \<^item> \<open>kManuallyUnsetCover\<close>, \<open>kEmbeddedCover\<close>: the sentinels of the cover loader;
    \<open>kImageFileFilter\<close>, \<open>kAllFilesFilter\<close>: the filters of the cover manager.
  \<^item> \<open>PrettyTitle\<close>: the title that the song class shows for a song.
  \<^item> \<open>escape\<close>: \<open>Qt::escape\<close>; \<open>section_of\<close>: \<open>QString::section\<close>.
  \<^item> \<open>LoadImageAsync_id\<close>: the id that \<open>LoadImageAsync\<close> returns, given the loader,
    the calls made to it so far and the song.
  \<^item> \<open>QImage_of_file\<close>: the image that \<open>QImage(path)\<close> loads, null when it cannot.
  \<^item> \<open>document_height\<close>: the height of the laid out text, \<open>size().height()\<close>.
  \<^item> \<open>currentPixmap\<close>: the current frame of a movie.
  \<^item> \<open>TryLoadPixmap\<close>, \<open>SaveCoverInCache\<close>: the functions of these names of the
    cover loader and of the cover manager; the second returns the path it saved to.
\<close>

record env =
  HAVE_LIBLASTFM :: bool
  tr :: "string \<Rightarrow> string"
  Mode_of_int :: "int \<Rightarrow> Mode"
  int_of_Mode :: "Mode \<Rightarrow> int"
  kManuallyUnsetCover :: string
  kEmbeddedCover :: string
  kImageFileFilter :: string
  kAllFilesFilter :: string
  PrettyTitle :: "Song \<Rightarrow> string"
  escape :: "string \<Rightarrow> string"
  section_of :: "string \<Rightarrow> char \<Rightarrow> int \<Rightarrow> int \<Rightarrow> string"
  LoadImageAsync_id :: "loader_kind \<Rightarrow> AlbumCoverLoader \<Rightarrow> Song \<Rightarrow> 64 word"
  QImage_of_file :: "string \<Rightarrow> QImage"
  document_height :: "QTextDocument \<Rightarrow> int"
  currentPixmap :: "QMovie \<Rightarrow> QPixmap"
  TryLoadPixmap :: "string \<Rightarrow> string \<Rightarrow> string \<Rightarrow> QPixmap"
  SaveCoverInCache :: "string \<Rightarrow> string \<Rightarrow> QImage \<Rightarrow> string"

text \<open>
  The state of the base class that this file reads or writes, and the counts of the
  repaint and geometry requests.
\<close>

record QWidget =
  width :: int
  height :: int
  maximumHeight :: int
  palette_background :: QColor
  update_calls :: nat
  updateGeometry_calls :: nat

text \<open>
  The widget. After the members come the things outside the widget that its
  functions act on: the persistent settings, the signal it emits, the screen it
  paints on and the dialogs it opens.
\<close>

record NowPlayingWidget = QWidget +
  cover_from_url_dialog :: "CoverFromURLDialog option"
  cover_loader :: BackgroundThread
  kitten_loader :: "BackgroundThread option"
  backend :: "LibraryBackend option"
  mode :: Mode
  menu :: "menu_entry list"
  mode_actions :: "(Mode \<times> QAction) list"
  choose_cover :: QAction
  download_cover :: QAction
  search_for_cover :: QAction
  unset_cover :: QAction
  show_cover :: QAction
  above_statusbar_action :: QAction
  visible :: bool
  small_ideal_height :: int
  cover_height :: int
  total_height :: int
  show_hide_animation :: QTimeLine
  fade_animation :: QTimeLine
  load_cover_id :: "64 word"
  metadata :: Song
  cover :: QPixmap
  details :: QTextDocument
  previous_track :: QPixmap
  previous_track_opacity :: real
  hypnotoad :: "QMovie option"
  aww :: bool
  settings :: QSettings
  emitted_ShowAboveStatusBarChanged :: "bool list"
  screen :: "paint_cmd list"
  popups :: nat
  dialogs :: "(string \<times> QPixmap) list"

subsection \<open>The base class\<close>

definition update :: "NowPlayingWidget \<Rightarrow> NowPlayingWidget" where
  "update s = s\<lparr>update_calls := Suc (update_calls s)\<rparr>"

definition updateGeometry :: "NowPlayingWidget \<Rightarrow> NowPlayingWidget" where
  "updateGeometry s = s\<lparr>updateGeometry_calls := Suc (updateGeometry_calls s)\<rparr>"

definition setMaximumHeight :: "int \<Rightarrow> NowPlayingWidget \<Rightarrow> NowPlayingWidget" where
  "setMaximumHeight h s = s\<lparr>maximumHeight := h\<rparr>"

text \<open>
  \<open>qFuzzyCompare\<close> on doubles, as the toolkit defines it, over the reals. Against
  0.0 it holds exactly when the other argument is zero, for doubles too.
\<close>

definition qFuzzyCompare :: "real \<Rightarrow> real \<Rightarrow> bool" where
  "qFuzzyCompare p1 p2 = (\<bar>p1 - p2\<bar> \<le> 0.000000000001 * min \<bar>p1\<bar> \<bar>p2\<bar>)"

subsection \<open>The workers of the loader threads\<close>

text \<open>
  \<open>Worker().get()\<close> of a thread, dereferenced: an error when the thread or its
  worker is null.
\<close>

fun get_worker :: "loader_kind \<Rightarrow> NowPlayingWidget \<Rightarrow> error + AlbumCoverLoader" where
  "get_worker CoverLoader s =
     (case cover_loader s of None \<Rightarrow> Inl NullWorker | Some w \<Rightarrow> Inr w)"
| "get_worker KittenLoader s =
     (case kitten_loader s of
        None \<Rightarrow> Inl NullThread
      | Some None \<Rightarrow> Inl NullWorker
      | Some (Some w) \<Rightarrow> Inr w)"

fun set_worker :: "loader_kind \<Rightarrow> AlbumCoverLoader \<Rightarrow> NowPlayingWidget \<Rightarrow> NowPlayingWidget" where
  "set_worker CoverLoader w s = s\<lparr>cover_loader := Some w\<rparr>"
| "set_worker KittenLoader w s = s\<lparr>kitten_loader := Some (Some w)\<rparr>"

text \<open>
  The thread chosen by \<open>aww_ ? kitten_loader_ : cover_loader_\<close>.
\<close>

definition current_loader :: "NowPlayingWidget \<Rightarrow> loader_kind" where
  "current_loader s = (if aww s then KittenLoader else CoverLoader)"

subsection \<open>Layout and text\<close>

text \<open>
  \<open>UpdateHeight(loader)\<close>, in the three parts of its body: the \<open>switch\<close> on the
  mode, the animation settings, and the calls on the loader. The argument names the
  thread whose worker is passed; the worker is dereferenced after the sizes are set,
  and a null one ends the run. \<open>LoadImageAsync\<close> returns an id that depends on the
  loader and on the calls made to it so far.
\<close>

definition UpdateHeight_sizes :: "NowPlayingWidget \<Rightarrow> NowPlayingWidget" where
  "UpdateHeight_sizes s =
     (case mode s of
        SmallSongDetails \<Rightarrow>
          s\<lparr>cover_height := small_ideal_height s, total_height := small_ideal_height s\<rparr>
      | LargeSongDetails \<Rightarrow>
          (let c = min kMaxCoverSize (width s)
           in s\<lparr>cover_height := c, total_height := kTopBorder + c + kBottomOffset\<rparr>)
      | Mode_other i \<Rightarrow> s)"

definition UpdateHeight_animation :: "NowPlayingWidget \<Rightarrow> NowPlayingWidget" where
  "UpdateHeight_animation s =
     (let s1 = s\<lparr>show_hide_animation :=
                  setFrameRange 0 (total_height s) (show_hide_animation s)\<rparr>
      in if visible s1 \<and> tl_state (show_hide_animation s1) \<noteq> Running
         then setMaximumHeight (total_height s1) s1 else s1)"

definition UpdateHeight_loader :: "env \<Rightarrow> loader_kind \<Rightarrow> AlbumCoverLoader \<Rightarrow> NowPlayingWidget \<Rightarrow> NowPlayingWidget" where
  "UpdateHeight_loader e k w s =
     (let w1 = w @ [SetDesiredHeight (cover_height s),
                    SetDefaultOutputImage (QImage_of_file e '':nocover.png'')];
          i = LoadImageAsync_id e k w1 (metadata s);
          w2 = w1 @ [LoadImageAsync (metadata s)]
      in updateGeometry ((set_worker k w2 s)\<lparr>load_cover_id := i\<rparr>))"

definition UpdateHeight :: "env \<Rightarrow> loader_kind \<Rightarrow> NowPlayingWidget \<Rightarrow> error + NowPlayingWidget" where
  "UpdateHeight e k s =
     (let s1 = UpdateHeight_animation (UpdateHeight_sizes s)
      in case get_worker k s1 of
           Inl err \<Rightarrow> Inl err
         | Inr w \<Rightarrow> Inr (UpdateHeight_loader e k w s1))"

definition set_ideal_height :: "env \<Rightarrow> int \<Rightarrow> NowPlayingWidget \<Rightarrow> error + NowPlayingWidget" where
  "set_ideal_height e h s =
     (let s1 = s\<lparr>small_ideal_height := h\<rparr> in UpdateHeight e (current_loader s1) s1)"

definition sizeHint :: "NowPlayingWidget \<Rightarrow> int \<times> int" where
  "sizeHint s = (cover_height s, total_height s)"

definition CoverLoaderInitialised :: "env \<Rightarrow> loader_kind \<Rightarrow> NowPlayingWidget \<Rightarrow> error + NowPlayingWidget" where
  "CoverLoaderInitialised e sender s =
     (case UpdateHeight e sender s of
        Inl err \<Rightarrow> Inl err
      | Inr s1 \<Rightarrow>
          (case get_worker sender s1 of
             Inl err \<Rightarrow> Inl err
           | Inr w \<Rightarrow> Inr (set_worker sender (w @ [SetPadOutputImage True]) s1)))"

definition details_html :: "env \<Rightarrow> string \<Rightarrow> Song \<Rightarrow> string" where
  "details_html e p m =
     p @ ''<i>'' @ escape e (PrettyTitle e m) @ ''</i><br/>'' @ escape e (artist m)
       @ ''<br/>'' @ escape e (album m) @ ''</p>''"

definition UpdateDetailsText :: "env \<Rightarrow> NowPlayingWidget \<Rightarrow> NowPlayingWidget" where
  "UpdateDetailsText e s =
     (case mode s of
        SmallSongDetails \<Rightarrow>
          s\<lparr>details := \<lparr>textWidth = - 1, defaultStyleSheet = [],
                         html = details_html e ''<p>'' (metadata s)\<rparr>\<rparr>
      | LargeSongDetails \<Rightarrow>
          s\<lparr>details := \<lparr>textWidth = cover_height s,
                         defaultStyleSheet = ''p {  font-size: small;  color: white;}'',
                         html = details_html e ''<p align=center>'' (metadata s)\<rparr>\<rparr>
      | Mode_other i \<Rightarrow>
          s\<lparr>details := (details s)\<lparr>html := details_html e [] (metadata s)\<rparr>\<rparr>)"

subsection \<open>Painting\<close>

definition shown_pixmap :: "env \<Rightarrow> NowPlayingWidget \<Rightarrow> QPixmap" where
  "shown_pixmap e s =
     (case hypnotoad s of Some h \<Rightarrow> currentPixmap e h | None \<Rightarrow> cover s)"

definition DrawContents :: "env \<Rightarrow> NowPlayingWidget \<Rightarrow> paint_cmd list" where
  "DrawContents e s =
     (case mode s of
        SmallSongDetails \<Rightarrow>
          [drawPixmap 0 0 (small_ideal_height s) (small_ideal_height s) (shown_pixmap e s),
           translate (add32 (small_ideal_height s) kPadding) 0,
           drawContents (details s),
           translate (sub32 (neg32 (small_ideal_height s)) kPadding) 0]
      | LargeSongDetails \<Rightarrow>
          (let total_size = min kMaxCoverSize (width s);
               x_offset = sub32 (width s) (cover_height s) sdiv 2;
               text_height = document_height e (details s);
               gradient_mid = sub32 (height s) (max text_height kBottomOffset);
               gradient = QLinearGradient 0 (sub32 gradient_mid kGradientHead)
                            0 (add32 gradient_mid kGradientTail)
                            [(0, QColor 0 0 0 0), (1, QColor 0 0 0 255)]
           in [fillRect 0 kTopBorder (width s) (sub32 (height s) kTopBorder) Qt_black,
               drawPixmap x_offset kTopBorder total_size total_size (shown_pixmap e s),
               fillRect_gradient 0 (sub32 gradient_mid kGradientHead) (width s)
                 (sub32 (height s) (sub32 gradient_mid kGradientHead)) gradient,
               translate x_offset (sub32 (height s) text_height),
               drawContents (details s),
               translate (neg32 x_offset) (add32 (neg32 (height s)) text_height)])
      | Mode_other i \<Rightarrow> [])"

definition paintEvent :: "env \<Rightarrow> NowPlayingWidget \<Rightarrow> NowPlayingWidget" where
  "paintEvent e s =
     s\<lparr>screen := DrawContents e s @
        (if \<not> QPixmap_isNull (previous_track s)
         then [setOpacity (previous_track_opacity s), drawPixmap_at 0 0 (previous_track s)]
         else [])\<rparr>"

text \<open>
  The rendering that \<open>NowPlaying\<close> caches: a pixmap of the widget's size, filled
  with the background colour, with the contents drawn on it.
\<close>

definition rendering :: "env \<Rightarrow> NowPlayingWidget \<Rightarrow> QPixmap" where
  "rendering e s =
     paint_on (paint_on (QPixmap_of_size (width s) (height s)) [fill (palette_background s)])
       (DrawContents e s)"

subsection \<open>Tracks starting and stopping\<close>

definition SetHeight :: "int \<Rightarrow> NowPlayingWidget \<Rightarrow> NowPlayingWidget" where
  "SetHeight h s = setMaximumHeight h s"

definition SetVisible :: "bool \<Rightarrow> NowPlayingWidget \<Rightarrow> NowPlayingWidget" where
  "SetVisible v s =
     (if v = visible s then s
      else s\<lparr>visible := v,
             show_hide_animation :=
               start (setDirection (if v then Forward else Backward) (show_hide_animation s))\<rparr>)"

text \<open>The first block of \<open>NowPlaying\<close>: cache the current pixmap to fade from it.\<close>

definition cache_previous_track :: "env \<Rightarrow> NowPlayingWidget \<Rightarrow> NowPlayingWidget" where
  "cache_previous_track e s =
     (if visible s
      then s\<lparr>previous_track := rendering e s, previous_track_opacity := 1\<rparr>
      else s)"

definition NowPlaying :: "env \<Rightarrow> Song \<Rightarrow> NowPlayingWidget \<Rightarrow> error + NowPlayingWidget" where
  "NowPlaying e m s =
     (let s1 = cache_previous_track e s;
          s2 = s1\<lparr>metadata := m, cover := QPixmap_null\<rparr>
      in case UpdateHeight e (current_loader s2) s2 of
           Inl err \<Rightarrow> Inl err
         | Inr s3 \<Rightarrow> Inr (update (SetVisible True (UpdateDetailsText e s3))))"

definition Stopped :: "NowPlayingWidget \<Rightarrow> NowPlayingWidget" where
  "Stopped s = SetVisible False s"

definition AlbumArtLoaded :: "64 word \<Rightarrow> QImage \<Rightarrow> NowPlayingWidget \<Rightarrow> NowPlayingWidget" where
  "AlbumArtLoaded i img s =
     (if i \<noteq> load_cover_id s then s
      else (let s1 = update (s\<lparr>cover := QPixmap_fromImage img\<rparr>)
            in if \<not> QPixmap_isNull (previous_track s1)
               then s1\<lparr>fade_animation := start (fade_animation s1)\<rparr>
               else s1))"

definition FadePreviousTrack :: "real \<Rightarrow> NowPlayingWidget \<Rightarrow> NowPlayingWidget" where
  "FadePreviousTrack v s =
     (let s1 = s\<lparr>previous_track_opacity := v\<rparr>;
          s2 = (if qFuzzyCompare (previous_track_opacity s1) 0
                then s1\<lparr>previous_track := QPixmap_null\<rparr> else s1)
      in update s2)"

subsection \<open>Mode, resizing, the context menu\<close>

definition SetMode :: "env \<Rightarrow> int \<Rightarrow> NowPlayingWidget \<Rightarrow> error + NowPlayingWidget" where
  "SetMode e m s =
     (let s1 = s\<lparr>mode := Mode_of_int e m\<rparr>
      in case UpdateHeight e (current_loader s1) s1 of
           Inl err \<Rightarrow> Inl err
         | Inr s2 \<Rightarrow>
             (let s3 = update (UpdateDetailsText e s2)
              in Inr (s3\<lparr>settings :=
                   settings_setValue kSettingsGroup ''mode''
                     (QVariant_int (int_of_Mode e (mode s3))) (settings s3)\<rparr>)))"

text \<open>
  \<open>resizeEvent(e)\<close>, with the old and the new size of the event as pairs of width
  and height. \<open>width()\<close> inside is the widget's width when the handler runs.
\<close>

definition resizeEvent :: "env \<Rightarrow> int \<times> int \<Rightarrow> int \<times> int \<Rightarrow> NowPlayingWidget \<Rightarrow> error + NowPlayingWidget" where
  "resizeEvent e oldSize newSize s =
     (if visible s \<and> mode s = LargeSongDetails \<and> fst oldSize \<noteq> fst newSize
      then (case UpdateHeight e (current_loader s) s of
              Inl err \<Rightarrow> Inl err
            | Inr s1 \<Rightarrow> Inr (UpdateDetailsText e s1))
      else Inr s)"

definition setEnabled :: "bool \<Rightarrow> QAction \<Rightarrow> QAction" where
  "setEnabled b a = a\<lparr>enabled := b\<rparr>"

definition art_is_set :: "env \<Rightarrow> NowPlayingWidget \<Rightarrow> bool" where
  "art_is_set e s =
     (art_manual (metadata s) \<noteq> [] \<and> art_manual (metadata s) \<noteq> kManuallyUnsetCover e)"

definition contextMenuEvent :: "env \<Rightarrow> NowPlayingWidget \<Rightarrow> NowPlayingWidget" where
  "contextMenuEvent e s =
     (let s1 = (if \<not> HAVE_LIBLASTFM e
                then s\<lparr>choose_cover := setEnabled False (choose_cover s),
                       search_for_cover := setEnabled False (search_for_cover s)\<rparr>
                else s);
          b = art_is_set e s1;
          s2 = s1\<lparr>unset_cover := setEnabled b (unset_cover s1),
                  show_cover := setEnabled b (show_cover s1)\<rparr>
      in s2\<lparr>popups := Suc (popups s2)\<rparr>)"

definition ShowAboveStatusBar :: "bool \<Rightarrow> NowPlayingWidget \<Rightarrow> NowPlayingWidget" where
  "ShowAboveStatusBar b s =
     s\<lparr>settings :=
          settings_setValue kSettingsGroup ''above_status_bar'' (QVariant_bool b) (settings s),
        emitted_ShowAboveStatusBarChanged := emitted_ShowAboveStatusBarChanged s @ [b]\<rparr>"

definition show_above_status_bar :: "NowPlayingWidget \<Rightarrow> bool" where
  "show_above_status_bar s = checked (above_statusbar_action s)"

subsection \<open>Hypnotoad and kittens\<close>

definition AllHail :: "bool \<Rightarrow> NowPlayingWidget \<Rightarrow> NowPlayingWidget" where
  "AllHail h s =
     (if h then update (s\<lparr>hypnotoad := Some (QMovie kHypnotoadPath)\<rparr>)
      else update (s\<lparr>hypnotoad := None\<rparr>))"

text \<open>
  \<open>EnableKittens\<close>: a new kitten thread has no worker yet. \<open>aww_\<close> is assigned
  last, so the \<open>NowPlaying\<close> of the second branch still sees its old value.
\<close>

definition EnableKittens :: "env \<Rightarrow> bool \<Rightarrow> NowPlayingWidget \<Rightarrow> error + NowPlayingWidget" where
  "EnableKittens e a s =
     (case (if kitten_loader s = None \<and> a then Inr (s\<lparr>kitten_loader := Some None\<rparr>)
            else if a then NowPlaying e (metadata s) s
            else Inr s) of
        Inl err \<Rightarrow> Inl err
      | Inr s1 \<Rightarrow> Inr (s1\<lparr>aww := a\<rparr>))"

subsection \<open>Managing the cover\<close>

definition SetAlbumArt :: "env \<Rightarrow> string \<Rightarrow> NowPlayingWidget \<Rightarrow> error + NowPlayingWidget" where
  "SetAlbumArt e path s =
     (let s1 = s\<lparr>metadata := (metadata s)\<lparr>art_manual := path\<rparr>\<rparr>
      in case backend s1 of
           None \<Rightarrow> Inl NullBackend
         | Some b \<Rightarrow>
             (let s2 = s1\<lparr>backend := Some (b @
                         [UpdateManualAlbumArtAsync (artist (metadata s1)) (album (metadata s1)) path])\<rparr>
              in NowPlaying e (metadata s2) s2))"

text \<open>
  The initial path of the file dialog, and the dialog itself: \<open>getOpenFileName\<close>
  is what the user answers (\<open>None\<close> for a null string), given the caption, the
  directory and the filter.
\<close>

definition initial_path :: "env \<Rightarrow> NowPlayingWidget \<Rightarrow> string" where
  "initial_path e s =
     (if art_automatic (metadata s) \<noteq> [] \<and> art_automatic (metadata s) \<noteq> kEmbeddedCover e
      then art_automatic (metadata s)
      else section_of e (filename (metadata s)) (CHR ''/'') 0 (- 1))"

definition LoadCoverFromFile ::
  "env \<Rightarrow> (string \<Rightarrow> string \<Rightarrow> string \<Rightarrow> string option) \<Rightarrow> NowPlayingWidget \<Rightarrow> error + NowPlayingWidget" where
  "LoadCoverFromFile e getOpenFileName s =
     (if HAVE_LIBLASTFM e
      then (case getOpenFileName (tr e ''Choose manual cover'') (initial_path e s)
                   (tr e (kImageFileFilter e) @ '';;'' @ tr e (kAllFilesFilter e)) of
              None \<Rightarrow> Inr s
            | Some c \<Rightarrow>
                if QImage_isNull (QImage_of_file e c) then Inr s
                else SetAlbumArt e c s)
      else Inr s)"

text \<open>\<open>LoadCoverFromURL\<close>, given the image that the dialog's \<open>Exec()\<close> returns.\<close>

definition LoadCoverFromURL :: "env \<Rightarrow> QImage \<Rightarrow> NowPlayingWidget \<Rightarrow> error + NowPlayingWidget" where
  "LoadCoverFromURL e img s =
     (let s1 = (if cover_from_url_dialog s = None
                then s\<lparr>cover_from_url_dialog := Some CoverFromURLDialog\<rparr> else s)
      in if QImage_isNull img then Inr s1
         else SetAlbumArt e
                (SaveCoverInCache e (artist (metadata s1)) (album (metadata s1)) img) s1)"

text \<open>\<open>SearchCover\<close>, given what the searcher's \<open>Exec(query)\<close> returns.\<close>

definition search_query :: "NowPlayingWidget \<Rightarrow> string" where
  "search_query s =
     (let q = artist (metadata s);
          q1 = (if q \<noteq> [] then q @ '' '' else q)
      in q1 @ album (metadata s))"

definition SearchCover :: "env \<Rightarrow> (string \<Rightarrow> QImage) \<Rightarrow> NowPlayingWidget \<Rightarrow> error + NowPlayingWidget" where
  "SearchCover e Exec s =
     (if HAVE_LIBLASTFM e
      then (let img = Exec (search_query s)
            in if QImage_isNull img then Inr s
               else SetAlbumArt e
                      (SaveCoverInCache e (artist (metadata s)) (album (metadata s)) img) s)
      else Inr s)"

definition UnsetCover :: "env \<Rightarrow> NowPlayingWidget \<Rightarrow> error + NowPlayingWidget" where
  "UnsetCover e s = SetAlbumArt e (kManuallyUnsetCover e) s"

definition ZoomCover :: "env \<Rightarrow> NowPlayingWidget \<Rightarrow> NowPlayingWidget" where
  "ZoomCover e s =
     s\<lparr>dialogs := dialogs s @
        [(title (metadata s),
          TryLoadPixmap e (art_automatic (metadata s)) (art_manual (metadata s))
            (filename (metadata s)))]\<rparr>"

definition SetLibraryBackend :: "LibraryBackend option \<Rightarrow> NowPlayingWidget \<Rightarrow> NowPlayingWidget" where
  "SetLibraryBackend b s = s\<lparr>backend := b\<rparr>"

subsection \<open>The constructor\<close>

definition CreateModeAction :: "env \<Rightarrow> Mode \<Rightarrow> string \<Rightarrow> NowPlayingWidget \<Rightarrow> NowPlayingWidget" where
  "CreateModeAction e m t s =
     (let a = (QAction_new None t (SLOT_SetMode (int_of_Mode e m)))\<lparr>checkable := True\<rparr>;
          a1 = (if m = mode s then a\<lparr>checked := True\<rparr> else a)
      in s\<lparr>mode_actions := mode_actions s @ [(m, a1)]\<rparr>)"

text \<open>
  The constructor, given the base object, the indeterminate initial value of
  \<open>total_height_\<close> (it has no initialiser) and the stored settings. The actions of
  the menu are created with the texts, icons and slots of the constructor's body.
  Checking the status bar action emits \<open>toggled\<close>, which runs \<open>ShowAboveStatusBar\<close>.
\<close>

definition members_init :: "env \<Rightarrow> QWidget \<Rightarrow> int \<Rightarrow> QSettings \<Rightarrow> NowPlayingWidget" where
  "members_init e base th0 st =
     \<lparr>width = width base, height = height base, maximumHeight = maximumHeight base,
      palette_background = palette_background base, update_calls = update_calls base,
      updateGeometry_calls = updateGeometry_calls base,
      cover_from_url_dialog = None,
      cover_loader = None,
      kitten_loader = None,
      backend = None,
      mode = Mode_of_int e (toInt (settings_value st kSettingsGroup ''mode''
               (QVariant_int (int_of_Mode e SmallSongDetails)))),
      menu = [],
      mode_actions = [],
      choose_cover = QAction_new (Some ''document-open'') (tr e ''Load cover from disk...'')
                       SLOT_LoadCoverFromFile,
      download_cover = QAction_new (Some ''download'') (tr e ''Load cover from URL...'')
                         SLOT_LoadCoverFromURL,
      search_for_cover = QAction_new (Some ''find'') (tr e ''Search for album covers...'')
                           SLOT_SearchCover,
      unset_cover = QAction_new (Some ''list-remove'') (tr e ''Unset cover'') SLOT_UnsetCover,
      show_cover = QAction_new (Some ''zoom-in'') (tr e ''Show fullsize...'') SLOT_ZoomCover,
      above_statusbar_action =
        (QAction_new None (tr e ''Show above status bar'') SLOT_ShowAboveStatusBar)
          \<lparr>checkable := True\<rparr>,
      visible = False,
      small_ideal_height = 0,
      cover_height = 0,
      total_height = th0,
      show_hide_animation = QTimeLine_new 500,
      fade_animation = QTimeLine_new 1000,
      load_cover_id = 0,
      metadata = \<lparr>title = [], artist = [], album = [], art_manual = [],
                  art_automatic = [], filename = []\<rparr>,
      cover = QPixmap_null,
      details = \<lparr>textWidth = - 1, defaultStyleSheet = [], html = []\<rparr>,
      previous_track = QPixmap_null,
      previous_track_opacity = 0,
      hypnotoad = None,
      aww = False,
      settings = st,
      emitted_ShowAboveStatusBarChanged = [],
      screen = [],
      popups = 0,
      dialogs = []\<rparr>"

definition cover_entries :: "menu_entry list" where
  "cover_entries = [choose_cover_action, download_cover_action, search_for_cover_action,
     unset_cover_action, show_cover_action]"

definition NowPlayingWidget_new :: "env \<Rightarrow> QWidget \<Rightarrow> int \<Rightarrow> QSettings \<Rightarrow> NowPlayingWidget" where
  "NowPlayingWidget_new e base th0 st =
     (let s0 = members_init e base th0 st;
          s1 = CreateModeAction e LargeSongDetails (tr e ''Large album cover'')
                 (CreateModeAction e SmallSongDetails (tr e ''Small album cover'') s0);
          s2 = s1\<lparr>menu := map (\<lambda>p. mode_action (fst p)) (mode_actions s1) @ [separator]
                   @ cover_entries @ [separator, above_statusbar_entry]\<rparr>;
          s3 = (if toBool (settings_value st kSettingsGroup ''above_status_bar''
                     (QVariant_bool False))
                then ShowAboveStatusBar True
                       (s2\<lparr>above_statusbar_action :=
                             (above_statusbar_action s2)\<lparr>checked := True\<rparr>\<rparr>)
                else s2);
          s4 = setMaximumHeight 0 s3
      in s4\<lparr>fade_animation := setDirection Backward (fade_animation s4)\<rparr>)"

text \<open>The action behind an entry of the menu.\<close>

fun entry_action :: "NowPlayingWidget \<Rightarrow> menu_entry \<Rightarrow> QAction option" where
  "entry_action s separator = None"
| "entry_action s (mode_action m) = map_of (mode_actions s) m"
| "entry_action s choose_cover_action = Some (choose_cover s)"
| "entry_action s download_cover_action = Some (download_cover s)"
| "entry_action s search_for_cover_action = Some (search_for_cover s)"
| "entry_action s unset_cover_action = Some (unset_cover s)"
| "entry_action s show_cover_action = Some (show_cover s)"
| "entry_action s above_statusbar_entry = Some (above_statusbar_action s)"

subsection \<open>The operations of the widget\<close>

text \<open>
  Every member function that the toolkit, the player or the user can invoke, with
  its arguments. A resize event reaches the handler after the widget has taken its
  new size.
\<close>

datatype operation =
    Op_set_ideal_height int
  | Op_CoverLoaderInitialised loader_kind
  | Op_NowPlaying Song
  | Op_Stopped
  | Op_AlbumArtLoaded "64 word" QImage
  | Op_SetHeight int
  | Op_SetVisible bool
  | Op_paintEvent
  | Op_FadePreviousTrack real
  | Op_SetMode int
  | Op_resizeEvent "int \<times> int" "int \<times> int"
  | Op_contextMenuEvent
  | Op_ShowAboveStatusBar bool
  | Op_AllHail bool
  | Op_EnableKittens bool
  | Op_LoadCoverFromFile "string \<Rightarrow> string \<Rightarrow> string \<Rightarrow> string option"
  | Op_LoadCoverFromURL QImage
  | Op_SearchCover "string \<Rightarrow> QImage"
  | Op_UnsetCover
  | Op_ZoomCover
  | Op_SetAlbumArt string
  | Op_SetLibraryBackend "LibraryBackend option"

fun step :: "env \<Rightarrow> operation \<Rightarrow> NowPlayingWidget \<Rightarrow> error + NowPlayingWidget" where
  "step e (Op_set_ideal_height h) s = set_ideal_height e h s"
| "step e (Op_CoverLoaderInitialised k) s = CoverLoaderInitialised e k s"
| "step e (Op_NowPlaying m) s = NowPlaying e m s"
| "step e Op_Stopped s = Inr (Stopped s)"
| "step e (Op_AlbumArtLoaded i img) s = Inr (AlbumArtLoaded i img s)"
| "step e (Op_SetHeight h) s = Inr (SetHeight h s)"
| "step e (Op_SetVisible v) s = Inr (SetVisible v s)"
| "step e Op_paintEvent s = Inr (paintEvent e s)"
| "step e (Op_FadePreviousTrack v) s = Inr (FadePreviousTrack v s)"
| "step e (Op_SetMode m) s = SetMode e m s"
| "step e (Op_resizeEvent old new) s =
     resizeEvent e old new (s\<lparr>width := fst new, height := snd new\<rparr>)"
| "step e Op_contextMenuEvent s = Inr (contextMenuEvent e s)"
| "step e (Op_ShowAboveStatusBar b) s = Inr (ShowAboveStatusBar b s)"
| "step e (Op_AllHail h) s = Inr (AllHail h s)"
| "step e (Op_EnableKittens a) s = EnableKittens e a s"
| "step e (Op_LoadCoverFromFile f) s = LoadCoverFromFile e f s"
| "step e (Op_LoadCoverFromURL img) s = LoadCoverFromURL e img s"
| "step e (Op_SearchCover f) s = SearchCover e f s"
| "step e Op_UnsetCover s = UnsetCover e s"
| "step e Op_ZoomCover s = Inr (ZoomCover e s)"
| "step e (Op_SetAlbumArt p) s = SetAlbumArt e p s"
| "step e (Op_SetLibraryBackend b) s = Inr (SetLibraryBackend b s)"

subsection \<open>A concrete environment and concrete states\<close>

definition env0 :: env where
  "env0 =
     \<lparr>HAVE_LIBLASTFM = True,
      tr = (\<lambda>t. t),
      Mode_of_int = (\<lambda>i. if i = 0 then SmallSongDetails
                          else if i = 1 then LargeSongDetails else Mode_other i),
      int_of_Mode = (\<lambda>m. case m of SmallSongDetails \<Rightarrow> 0 | LargeSongDetails \<Rightarrow> 1
                            | Mode_other i \<Rightarrow> i),
      kManuallyUnsetCover = ''(unset)'',
      kEmbeddedCover = ''(embedded)'',
      kImageFileFilter = ''Images'',
      kAllFilesFilter = ''All files'',
      PrettyTitle = title,
      escape = (\<lambda>t. t),
      section_of = (\<lambda>t c a b. t),
      LoadImageAsync_id = (\<lambda>k w m. of_nat (length w)),
      QImage_of_file = (\<lambda>p. if p = ''/broken.jpg'' then QImage_null else QImage_data p),
      document_height = (\<lambda>d. 30),
      currentPixmap = (\<lambda>m. QPixmap_image ''toad''),
      TryLoadPixmap = (\<lambda>a m f. QPixmap_image m),
      SaveCoverInCache = (\<lambda>a b i. ''cache/'' @ a @ ''-'' @ b)\<rparr>"

definition base0 :: QWidget where
  "base0 = \<lparr>width = 300, height = 64, maximumHeight = 16777215,
     palette_background = QColor 239 239 239 255, update_calls = 0,
     updateGeometry_calls = 0\<rparr>"

definition song1 :: Song where
  "song1 = \<lparr>title = ''Title'', artist = ''Artist'', album = ''Album'',
     art_manual = ''/covers/a.jpg'', art_automatic = [], filename = ''/music/a.mp3''\<rparr>"

definition song2 :: Song where
  "song2 = \<lparr>title = ''Other'', artist = ''Band'', album = ''Record'',
     art_manual = [], art_automatic = [], filename = ''/music/b.mp3''\<rparr>"

text \<open>
  The widget as constructed with no stored settings, once the loader's worker and
  a backend exist; and the same widget showing a track.
\<close>

definition ready0 :: NowPlayingWidget where
  "ready0 = (NowPlayingWidget_new env0 base0 0 Map.empty)
     \<lparr>cover_loader := Some [], backend := Some []\<rparr>"

definition playing0 :: NowPlayingWidget where
  "playing0 = (case NowPlaying env0 song1 ready0 of Inr s \<Rightarrow> s | Inl err \<Rightarrow> ready0)"

text \<open>
  Further states: a second track starts; its cover arrives; the large mode is chosen
  on the playing widget, which is then made narrower; the cover is unset; in large
  mode a track starts, the ideal height is set and the height is updated; and the
  widget as constructed, with no backend.
\<close>

definition fading0 :: NowPlayingWidget where
  "fading0 = (case NowPlaying env0 song2 playing0 of Inr s \<Rightarrow> s | Inl err \<Rightarrow> playing0)"

definition loaded0 :: NowPlayingWidget where
  "loaded0 = AlbumArtLoaded (load_cover_id fading0) (QImage_data ''b.jpg'') fading0"

definition large0 :: NowPlayingWidget where
  "large0 = (case SetMode env0 1 playing0 of Inr s \<Rightarrow> s | Inl err \<Rightarrow> playing0)"

definition narrow0 :: NowPlayingWidget where
  "narrow0 = (case step env0 (Op_resizeEvent (300, 264) (200, 264)) large0 of
                Inr s \<Rightarrow> s | Inl err \<Rightarrow> large0)"

definition unset0 :: NowPlayingWidget where
  "unset0 = (case UnsetCover env0 playing0 of Inr s \<Rightarrow> s | Inl err \<Rightarrow> playing0)"

definition large1 :: NowPlayingWidget where
  "large1 = (case NowPlaying env0 song2 large0 of Inr s \<Rightarrow> s | Inl err \<Rightarrow> large0)"

definition large2 :: NowPlayingWidget where
  "large2 = (case set_ideal_height env0 66 large0 of Inr s \<Rightarrow> s | Inl err \<Rightarrow> large0)"

definition large3 :: NowPlayingWidget where
  "large3 = (case UpdateHeight env0 CoverLoader large0 of Inr s \<Rightarrow> s | Inl err \<Rightarrow> large0)"


text \<open>
  States with a cover on show: the ideal height is set to 66, a track starts and its
  cover arrives; then the next track starts, in the small mode and in the large one.
\<close>

definition tuned0 :: NowPlayingWidget where
  "tuned0 = (case set_ideal_height env0 66 ready0 of Inr s \<Rightarrow> s | Inl err \<Rightarrow> ready0)"

definition tuned1 :: NowPlayingWidget where
  "tuned1 = (case NowPlaying env0 song1 tuned0 of Inr s \<Rightarrow> s | Inl err \<Rightarrow> tuned0)"

definition tuned2 :: NowPlayingWidget where
  "tuned2 = AlbumArtLoaded (load_cover_id tuned1) (QImage_data ''a.jpg'') tuned1"

definition tuned3 :: NowPlayingWidget where
  "tuned3 = (case NowPlaying env0 song2 tuned2 of Inr s \<Rightarrow> s | Inl err \<Rightarrow> tuned2)"

definition wide0 :: NowPlayingWidget where
  "wide0 = (case SetMode env0 1 tuned2 of Inr s \<Rightarrow> s | Inl err \<Rightarrow> tuned2)"

definition wide1 :: NowPlayingWidget where
  "wide1 = (case NowPlaying env0 song2 wide0 of Inr s \<Rightarrow> s | Inl err \<Rightarrow> wide0)"

section \<open>Properties\<close>

subsection \<open>Every function as an update of the record\<close>

lemma UpdateHeight_sizes_eq:
  "UpdateHeight_sizes s =
     s\<lparr>cover_height := (case mode s of SmallSongDetails \<Rightarrow> small_ideal_height s
                          | LargeSongDetails \<Rightarrow> min 260 (width s)
                          | Mode_other i \<Rightarrow> cover_height s),
       total_height := (case mode s of SmallSongDetails \<Rightarrow> small_ideal_height s
                          | LargeSongDetails \<Rightarrow> 4 + min 260 (width s)
                          | Mode_other i \<Rightarrow> total_height s)\<rparr>"
  by (simp add: UpdateHeight_sizes_def Let_def kMaxCoverSize_def kTopBorder_def
      kBottomOffset_def split: Mode.splits)

lemma UpdateHeight_animation_eq:
  "UpdateHeight_animation s =
     s\<lparr>show_hide_animation :=
         (show_hide_animation s)\<lparr>startFrame := 0, endFrame := total_height s\<rparr>,
       maximumHeight := (if visible s \<and> tl_state (show_hide_animation s) \<noteq> Running
                         then total_height s else maximumHeight s)\<rparr>"
  by (simp add: UpdateHeight_animation_def setMaximumHeight_def setFrameRange_def Let_def)

lemma set_worker_eq:
  "set_worker k w s =
     s\<lparr>cover_loader := (if k = CoverLoader then Some w else cover_loader s),
       kitten_loader := (if k = KittenLoader then Some (Some w) else kitten_loader s)\<rparr>"
  by (cases k) simp_all

lemma UpdateHeight_loader_eq:
  "UpdateHeight_loader e k w s =
     (set_worker k (w @ [SetDesiredHeight (cover_height s),
                         SetDefaultOutputImage (QImage_of_file e '':nocover.png''),
                         LoadImageAsync (metadata s)]) s)
     \<lparr>load_cover_id := LoadImageAsync_id e k
          (w @ [SetDesiredHeight (cover_height s),
                SetDefaultOutputImage (QImage_of_file e '':nocover.png'')]) (metadata s),
      updateGeometry_calls := Suc (updateGeometry_calls s)\<rparr>"
  by (cases k) (simp_all add: UpdateHeight_loader_def updateGeometry_def Let_def)

lemma SetVisible_eq:
  "SetVisible v s =
     s\<lparr>visible := v,
       show_hide_animation :=
         (if v = visible s then show_hide_animation s
          else (show_hide_animation s)\<lparr>direction := (if v then Forward else Backward),
                 tl_state := Running,
                 start_calls := Suc (start_calls (show_hide_animation s))\<rparr>)\<rparr>"
  by (simp add: SetVisible_def start_def setDirection_def)

lemma UpdateDetailsText_eq:
  "UpdateDetailsText e s =
     s\<lparr>details :=
         (case mode s of
            SmallSongDetails \<Rightarrow>
              \<lparr>textWidth = - 1, defaultStyleSheet = [],
               html = details_html e ''<p>'' (metadata s)\<rparr>
          | LargeSongDetails \<Rightarrow>
              \<lparr>textWidth = cover_height s,
               defaultStyleSheet = ''p {  font-size: small;  color: white;}'',
               html = details_html e ''<p align=center>'' (metadata s)\<rparr>
          | Mode_other i \<Rightarrow> (details s)\<lparr>html := details_html e [] (metadata s)\<rparr>)\<rparr>"
  by (simp add: UpdateDetailsText_def split: Mode.splits)

lemma cache_previous_track_eq:
  "cache_previous_track e s =
     s\<lparr>previous_track := (if visible s then rendering e s else previous_track s),
       previous_track_opacity := (if visible s then 1 else previous_track_opacity s)\<rparr>"
  by (simp add: cache_previous_track_def)

lemmas normal_form = UpdateHeight_sizes_eq UpdateHeight_animation_eq set_worker_eq
  UpdateHeight_loader_eq SetVisible_eq UpdateDetailsText_eq update_def
  cache_previous_track_eq

lemma get_worker_frame [simp]:
  "get_worker k (UpdateHeight_sizes s) = get_worker k s"
  "get_worker k (UpdateHeight_animation s) = get_worker k s"
  "get_worker k (cache_previous_track e s) = get_worker k s"
  "get_worker k (s\<lparr>metadata := m\<rparr>) = get_worker k s"
  "get_worker k (s\<lparr>cover := c\<rparr>) = get_worker k s"
  "get_worker k (s\<lparr>previous_track := p\<rparr>) = get_worker k s"
  "get_worker k (s\<lparr>previous_track_opacity := r\<rparr>) = get_worker k s"
  "get_worker k (s\<lparr>small_ideal_height := h\<rparr>) = get_worker k s"
  "get_worker k (s\<lparr>mode := md\<rparr>) = get_worker k s"
  "get_worker k (s\<lparr>backend := b\<rparr>) = get_worker k s"
  "get_worker k (s\<lparr>width := x\<rparr>) = get_worker k s"
  "get_worker k (s\<lparr>height := x\<rparr>) = get_worker k s"
  "get_worker k (s\<lparr>cover_from_url_dialog := d\<rparr>) = get_worker k s"
  by (cases k; simp add: UpdateHeight_animation_eq UpdateHeight_sizes_eq
      cache_previous_track_eq)+

lemma UpdateHeight_eq:
  "UpdateHeight e k s =
     (case get_worker k s of
        Inl err \<Rightarrow> Inl err
      | Inr w \<Rightarrow> Inr (UpdateHeight_loader e k w (UpdateHeight_animation (UpdateHeight_sizes s))))"
  by (simp add: UpdateHeight_def Let_def)

lemma UpdateHeight_Inr:
  "UpdateHeight e k s = Inr s' \<longleftrightarrow>
     (\<exists>w. get_worker k s = Inr w \<and>
          s' = UpdateHeight_loader e k w (UpdateHeight_animation (UpdateHeight_sizes s)))"
  by (auto simp: UpdateHeight_def Let_def split: sum.splits)

lemma NowPlaying_Inr:
  "NowPlaying e m s = Inr s' \<longleftrightarrow>
     (\<exists>w. get_worker (current_loader s) s = Inr w \<and>
          s' = update (SetVisible True (UpdateDetailsText e
                 (UpdateHeight_loader e (current_loader s) w
                   (UpdateHeight_animation (UpdateHeight_sizes
                     ((cache_previous_track e s)\<lparr>metadata := m, cover := QPixmap_null\<rparr>)))))))"
proof -
  let ?s2 = "(cache_previous_track e s)\<lparr>metadata := m, cover := QPixmap_null\<rparr>"
  have k: "current_loader ?s2 = current_loader s"
    by (simp add: current_loader_def cache_previous_track_eq)
  show ?thesis
    unfolding NowPlaying_def Let_def k UpdateHeight_eq
    by (cases "get_worker (current_loader s) s") auto
qed

lemma NowPlaying_frame:
  assumes "NowPlaying e m s = Inr s'"
  shows "fade_animation s' = fade_animation s" and "settings s' = settings s"
    and "backend s' = backend s" and "mode s' = mode s" and "width s' = width s"
    and "height s' = height s" and "aww s' = aww s"
    and "cover_from_url_dialog s' = cover_from_url_dialog s"
    and "metadata s' = m" and "cover s' = QPixmap_null" and "visible s'"
proof -
  from assms obtain w where s': "s' = update (SetVisible True (UpdateDetailsText e
                 (UpdateHeight_loader e (current_loader s) w
                   (UpdateHeight_animation (UpdateHeight_sizes
                     ((cache_previous_track e s)\<lparr>metadata := m, cover := QPixmap_null\<rparr>))))))"
    unfolding NowPlaying_Inr by blast
  show "fade_animation s' = fade_animation s" and "settings s' = settings s"
    and "backend s' = backend s" and "mode s' = mode s" and "width s' = width s"
    and "height s' = height s" and "aww s' = aww s"
    and "cover_from_url_dialog s' = cover_from_url_dialog s"
    and "metadata s' = m" and "cover s' = QPixmap_null" and "visible s'"
    unfolding s' by (simp_all add: normal_form)
qed

subsection \<open>What the operations leave alone\<close>

lemma UpdateHeight_frame:
  assumes "UpdateHeight e k s = Inr s'"
  shows "fade_animation s' = fade_animation s" and "settings s' = settings s"
    and "backend s' = backend s" and "mode s' = mode s" and "width s' = width s"
    and "metadata s' = metadata s" and "visible s' = visible s"
proof -
  from assms obtain w where
    s': "s' = UpdateHeight_loader e k w (UpdateHeight_animation (UpdateHeight_sizes s))"
    unfolding UpdateHeight_Inr by blast
  show "fade_animation s' = fade_animation s" and "settings s' = settings s"
    and "backend s' = backend s" and "mode s' = mode s" and "width s' = width s"
    and "metadata s' = metadata s" and "visible s' = visible s"
    unfolding s' by (simp_all add: normal_form)
qed

lemma set_ideal_height_frame:
  assumes "set_ideal_height e h s = Inr s'"
  shows "fade_animation s' = fade_animation s" and "settings s' = settings s"
  using assms UpdateHeight_frame [of e _ "s\<lparr>small_ideal_height := h\<rparr>" s']
  by (simp_all add: set_ideal_height_def Let_def)

lemma CoverLoaderInitialised_frame:
  assumes "CoverLoaderInitialised e k s = Inr s'"
  shows "fade_animation s' = fade_animation s" and "settings s' = settings s"
proof -
  from assms obtain s1 w where u: "UpdateHeight e k s = Inr s1"
    and s': "s' = set_worker k (w @ [SetPadOutputImage True]) s1"
    by (auto simp: CoverLoaderInitialised_def split: sum.splits)
  show "fade_animation s' = fade_animation s" and "settings s' = settings s"
    using UpdateHeight_frame [OF u] unfolding s' by (simp_all add: set_worker_eq)
qed

lemma SetMode_Inr:
  "SetMode e m s = Inr s' \<longleftrightarrow>
     (\<exists>s2. UpdateHeight e (current_loader s) (s\<lparr>mode := Mode_of_int e m\<rparr>) = Inr s2 \<and>
           s' = (update (UpdateDetailsText e s2))\<lparr>settings :=
                  settings_setValue kSettingsGroup ''mode''
                    (QVariant_int (int_of_Mode e (Mode_of_int e m))) (settings s)\<rparr>)"
proof -
  have k: "current_loader (s\<lparr>mode := Mode_of_int e m\<rparr>) = current_loader s"
    by (simp add: current_loader_def)
  have f: "mode (update (UpdateDetailsText e s2)) = Mode_of_int e m"
    "settings (update (UpdateDetailsText e s2)) = settings s"
    if "UpdateHeight e (current_loader s) (s\<lparr>mode := Mode_of_int e m\<rparr>) = Inr s2" for s2
    using UpdateHeight_frame [OF that] by (simp_all add: normal_form)
  show ?thesis
    unfolding SetMode_def Let_def k
    by (cases "UpdateHeight e (current_loader s) (s\<lparr>mode := Mode_of_int e m\<rparr>)")
       (auto simp: f)
qed

lemma SetMode_frame:
  assumes "SetMode e m s = Inr s'"
  shows "fade_animation s' = fade_animation s"
    and "settings s' = settings_setValue kSettingsGroup ''mode''
           (QVariant_int (int_of_Mode e (Mode_of_int e m))) (settings s)"
proof -
  from assms obtain s2 where
    u: "UpdateHeight e (current_loader s) (s\<lparr>mode := Mode_of_int e m\<rparr>) = Inr s2"
    and s': "s' = (update (UpdateDetailsText e s2))\<lparr>settings :=
                  settings_setValue kSettingsGroup ''mode''
                    (QVariant_int (int_of_Mode e (Mode_of_int e m))) (settings s)\<rparr>"
    unfolding SetMode_Inr by blast
  show "fade_animation s' = fade_animation s"
    and "settings s' = settings_setValue kSettingsGroup ''mode''
           (QVariant_int (int_of_Mode e (Mode_of_int e m))) (settings s)"
    using UpdateHeight_frame [OF u] unfolding s' by (simp_all add: normal_form)
qed

lemma resizeEvent_Inr:
  "resizeEvent e old new s = Inr s' \<longleftrightarrow>
     (if visible s \<and> mode s = LargeSongDetails \<and> fst old \<noteq> fst new
      then \<exists>s1. UpdateHeight e (current_loader s) s = Inr s1 \<and> s' = UpdateDetailsText e s1
      else s' = s)"
  by (cases "UpdateHeight e (current_loader s) s") (auto simp: resizeEvent_def)

lemma resizeEvent_frame:
  assumes "resizeEvent e old new s = Inr s'"
  shows "fade_animation s' = fade_animation s" and "settings s' = settings s"
proof -
  have "fade_animation s' = fade_animation s \<and> settings s' = settings s"
  proof (cases "visible s \<and> mode s = LargeSongDetails \<and> fst old \<noteq> fst new")
    case True
    with assms obtain s1 where u: "UpdateHeight e (current_loader s) s = Inr s1"
      and s': "s' = UpdateDetailsText e s1"
      by (auto simp: resizeEvent_Inr)
    show ?thesis
      using UpdateHeight_frame [OF u] by (simp add: s' normal_form)
  next
    case False
    with assms have "s' = s"
      by (simp add: resizeEvent_Inr)
    then show ?thesis by simp
  qed
  then show "fade_animation s' = fade_animation s" and "settings s' = settings s"
    by simp_all
qed

lemma EnableKittens_Inr:
  "EnableKittens e a s = Inr s' \<longleftrightarrow>
     (if kitten_loader s = None \<and> a then s' = s\<lparr>kitten_loader := Some None, aww := a\<rparr>
      else if a then \<exists>s1. NowPlaying e (metadata s) s = Inr s1 \<and> s' = s1\<lparr>aww := a\<rparr>
      else s' = s\<lparr>aww := a\<rparr>)"
  by (cases "NowPlaying e (metadata s) s") (auto simp: EnableKittens_def)

lemma EnableKittens_frame:
  assumes "EnableKittens e a s = Inr s'"
  shows "fade_animation s' = fade_animation s" and "settings s' = settings s"
proof -
  have "fade_animation s' = fade_animation s \<and> settings s' = settings s"
  proof (cases "\<not> (kitten_loader s = None \<and> a) \<and> a")
    case True
    with assms obtain s1 where n: "NowPlaying e (metadata s) s = Inr s1"
      and s': "s' = s1\<lparr>aww := a\<rparr>"
      by (auto simp: EnableKittens_Inr)
    show ?thesis
      using NowPlaying_frame [OF n] by (simp add: s')
  next
    case False
    with assms have "s' = s\<lparr>kitten_loader := Some None, aww := a\<rparr> \<or> s' = s\<lparr>aww := a\<rparr>"
      by (auto simp: EnableKittens_Inr split: if_splits)
    then show ?thesis by auto
  qed
  then show "fade_animation s' = fade_animation s" and "settings s' = settings s"
    by simp_all
qed

lemma SetAlbumArt_Inr:
  "SetAlbumArt e p s = Inr s' \<longleftrightarrow>
     (\<exists>b. backend s = Some b \<and>
          NowPlaying e ((metadata s)\<lparr>art_manual := p\<rparr>)
            (s\<lparr>metadata := (metadata s)\<lparr>art_manual := p\<rparr>,
               backend := Some (b @ [UpdateManualAlbumArtAsync (artist (metadata s))
                                       (album (metadata s)) p])\<rparr>) = Inr s')"
  by (cases "backend s") (simp_all add: SetAlbumArt_def Let_def)

lemma SetAlbumArt_frame:
  assumes "SetAlbumArt e p s = Inr s'"
  shows "fade_animation s' = fade_animation s" and "settings s' = settings s"
    and "cover_from_url_dialog s' = cover_from_url_dialog s"
proof -
  from assms obtain b where n: "NowPlaying e ((metadata s)\<lparr>art_manual := p\<rparr>)
            (s\<lparr>metadata := (metadata s)\<lparr>art_manual := p\<rparr>,
               backend := Some (b @ [UpdateManualAlbumArtAsync (artist (metadata s))
                                       (album (metadata s)) p])\<rparr>) = Inr s'"
    unfolding SetAlbumArt_Inr by blast
  show "fade_animation s' = fade_animation s" and "settings s' = settings s"
    and "cover_from_url_dialog s' = cover_from_url_dialog s"
    using NowPlaying_frame [OF n] by simp_all
qed

lemma url_dialog_eq:
  "(if cover_from_url_dialog s = None
    then s\<lparr>cover_from_url_dialog := Some CoverFromURLDialog\<rparr> else s) =
   s\<lparr>cover_from_url_dialog := Some CoverFromURLDialog\<rparr>"
proof (cases "cover_from_url_dialog s")
  case None
  then show ?thesis by simp
next
  case (Some d)
  then have "cover_from_url_dialog s = Some CoverFromURLDialog"
    by (cases d) simp
  then show ?thesis by simp
qed

lemma LoadCoverFromFile_Inr:
  assumes "LoadCoverFromFile e f s = Inr s'"
  shows "s' = s \<or> (\<exists>c. SetAlbumArt e c s = Inr s')"
  using assms
  by (auto simp: LoadCoverFromFile_def split: if_splits option.splits)

lemma LoadCoverFromURL_Inr:
  assumes "LoadCoverFromURL e img s = Inr s'"
  shows "s' = s\<lparr>cover_from_url_dialog := Some CoverFromURLDialog\<rparr> \<or>
         (\<exists>c. SetAlbumArt e c (s\<lparr>cover_from_url_dialog := Some CoverFromURLDialog\<rparr>) = Inr s')"
  using assms unfolding LoadCoverFromURL_def Let_def url_dialog_eq
  by (auto split: if_splits)

lemma SearchCover_Inr:
  assumes "SearchCover e f s = Inr s'"
  shows "s' = s \<or> (\<exists>c. SetAlbumArt e c s = Inr s')"
  using assms
  by (auto simp: SearchCover_def Let_def split: if_splits)

lemma LoadCoverFromFile_frame:
  assumes "LoadCoverFromFile e f s = Inr s'"
  shows "fade_animation s' = fade_animation s" and "settings s' = settings s"
  using LoadCoverFromFile_Inr [OF assms] SetAlbumArt_frame [of e _ s s'] by auto

lemma LoadCoverFromURL_frame:
  assumes "LoadCoverFromURL e img s = Inr s'"
  shows "fade_animation s' = fade_animation s" and "settings s' = settings s"
  using LoadCoverFromURL_Inr [OF assms]
    SetAlbumArt_frame [of e _ "s\<lparr>cover_from_url_dialog := Some CoverFromURLDialog\<rparr>" s']
  by auto

lemma SearchCover_frame:
  assumes "SearchCover e f s = Inr s'"
  shows "fade_animation s' = fade_animation s" and "settings s' = settings s"
  using SearchCover_Inr [OF assms] SetAlbumArt_frame [of e _ s s'] by auto

lemma pure_frame:
  "fade_animation (SetVisible v s) = fade_animation s"
  "settings (SetVisible v s) = settings s"
  "fade_animation (SetHeight h s) = fade_animation s"
  "settings (SetHeight h s) = settings s"
  "fade_animation (paintEvent e s) = fade_animation s"
  "settings (paintEvent e s) = settings s"
  "fade_animation (FadePreviousTrack r s) = fade_animation s"
  "settings (FadePreviousTrack r s) = settings s"
  "fade_animation (contextMenuEvent e s) = fade_animation s"
  "settings (contextMenuEvent e s) = settings s"
  "fade_animation (ShowAboveStatusBar b s) = fade_animation s"
  "fade_animation (AllHail b s) = fade_animation s"
  "settings (AllHail b s) = settings s"
  "fade_animation (ZoomCover e s) = fade_animation s"
  "settings (ZoomCover e s) = settings s"
  "fade_animation (SetLibraryBackend bk s) = fade_animation s"
  "settings (SetLibraryBackend bk s) = settings s"
  "settings (AlbumArtLoaded i img s) = settings s"
  by (simp_all add: SetVisible_eq SetHeight_def setMaximumHeight_def paintEvent_def
      FadePreviousTrack_def contextMenuEvent_def ShowAboveStatusBar_def AllHail_def
      ZoomCover_def SetLibraryBackend_def AlbumArtLoaded_def update_def Let_def)

lemma step_fade_frame:
  assumes "step e opn s = Inr s'" and "\<forall>i img. opn \<noteq> Op_AlbumArtLoaded i img"
  shows "fade_animation s' = fade_animation s"
proof (cases opn)
  case (Op_resizeEvent old new)
  with assms(1) show ?thesis
    using resizeEvent_frame(1) [of e old new "s\<lparr>width := fst new, height := snd new\<rparr>" s']
    by simp
next
  case (Op_AlbumArtLoaded i img)
  with assms(2) show ?thesis by simp
qed (use assms(1) in \<open>auto simp: pure_frame Stopped_def UnsetCover_def
      dest: set_ideal_height_frame(1) CoverLoaderInitialised_frame(1) NowPlaying_frame(1)
        SetMode_frame(1) EnableKittens_frame(1) LoadCoverFromFile_frame(1)
        LoadCoverFromURL_frame(1) SearchCover_frame(1) SetAlbumArt_frame(1)\<close>)

lemma step_settings_frame:
  assumes "step e opn s = Inr s'" and "\<forall>m. opn \<noteq> Op_SetMode m"
    and "\<forall>b. opn \<noteq> Op_ShowAboveStatusBar b"
  shows "settings s' = settings s"
proof (cases opn)
  case (Op_resizeEvent old new)
  with assms(1) show ?thesis
    using resizeEvent_frame(2) [of e old new "s\<lparr>width := fst new, height := snd new\<rparr>" s']
    by simp
next
  case (Op_SetMode m)
  with assms(2) show ?thesis by simp
next
  case (Op_ShowAboveStatusBar b)
  with assms(3) show ?thesis by blast
qed (use assms(1) in \<open>auto simp: pure_frame Stopped_def UnsetCover_def
      dest: set_ideal_height_frame(2) CoverLoaderInitialised_frame(2) NowPlaying_frame(2)
        EnableKittens_frame(2) LoadCoverFromFile_frame(2)
        LoadCoverFromURL_frame(2) SearchCover_frame(2) SetAlbumArt_frame(2)\<close>)

subsection \<open>The concrete states\<close>

lemma NowPlaying_run:
  assumes "get_worker (current_loader s) s = Inr w"
  shows "NowPlaying e m s = Inr (case NowPlaying e m s of Inr x \<Rightarrow> x | Inl err \<Rightarrow> d)"
proof -
  from assms obtain s' where "NowPlaying e m s = Inr s'"
    unfolding NowPlaying_Inr by blast
  then show ?thesis by simp
qed

lemma ready0_worker: "get_worker (current_loader ready0) ready0 = Inr []"
  by code_simp

lemma playing0_run: "NowPlaying env0 song1 ready0 = Inr playing0"
  unfolding playing0_def by (rule NowPlaying_run [OF ready0_worker])



lemma playing0_facts:
  "visible playing0" "load_cover_id playing0 = 2" "metadata playing0 = song1"
  "cover playing0 = QPixmap_null"
  "html (details playing0) = ''<p><i>Title</i><br/>Artist<br/>Album</p>''"
  "\<not> visible ready0"
  by code_simp+

lemma fading0_facts:
  "load_cover_id fading0 = 5"
  "\<not> QPixmap_isNull (previous_track fading0)"
  "previous_track_opacity fading0 = 1"
  "start_calls (fade_animation fading0) = 0"
  "start_calls (fade_animation loaded0) = 1"
  by code_simp+

subsection \<open>The claims\<close>

text \<open>
  C3. A cover that arrives under an id other than the one of the latest request
  (\<open>load_cover_id_\<close>) is dropped: \<open>AlbumArtLoaded\<close> returns at once and the whole
  state is as before, so the cover shown, the pixmap of the previous track, the
  opacity and the fade animation are untouched.
\<close>

theorem AlbumArtLoaded_stale_id:
  "i \<noteq> load_cover_id s \<Longrightarrow>
     AlbumArtLoaded i img s = s \<and> step e (Op_AlbumArtLoaded i img) s = Inr s"
  by (simp add: AlbumArtLoaded_def)

theorem AlbumArtLoaded_stale_id_witness:
  "(7 :: 64 word) \<noteq> load_cover_id playing0 \<and>
   AlbumArtLoaded 7 (QImage_data ''late.jpg'') playing0 = playing0 \<and>
   step env0 (Op_AlbumArtLoaded 7 (QImage_data ''late.jpg'')) playing0 = Inr playing0"
  using AlbumArtLoaded_stale_id [of 7 playing0 "QImage_data ''late.jpg''" env0]
  by (simp add: playing0_facts)

lemma NowPlaying_previous_track:
  assumes "NowPlaying e m s = Inr s'"
  shows "previous_track s' = (if visible s then rendering e s else previous_track s)"
    and "previous_track_opacity s' = (if visible s then 1 else previous_track_opacity s)"
proof -
  from assms obtain w where s': "s' = update (SetVisible True (UpdateDetailsText e
                 (UpdateHeight_loader e (current_loader s) w
                   (UpdateHeight_animation (UpdateHeight_sizes
                     ((cache_previous_track e s)\<lparr>metadata := m, cover := QPixmap_null\<rparr>))))))"
    unfolding NowPlaying_Inr by blast
  show "previous_track s' = (if visible s then rendering e s else previous_track s)"
    and "previous_track_opacity s' = (if visible s then 1 else previous_track_opacity s)"
    unfolding s' by (simp_all add: normal_form)
qed

lemma AlbumArtLoaded_fade:
  "fade_animation (AlbumArtLoaded i img s) =
     (if i = load_cover_id s \<and> \<not> QPixmap_isNull (previous_track s)
      then start (fade_animation s) else fade_animation s)"
  "i = load_cover_id s \<Longrightarrow> cover (AlbumArtLoaded i img s) = QPixmap_fromImage img"
  by (simp_all add: AlbumArtLoaded_def update_def Let_def)

lemma start_changes: "start t \<noteq> t"
proof
  assume "start t = t"
  then have "start_calls (start t) = start_calls t" by simp
  then show False by (simp add: start_def)
qed

lemma FadePreviousTrack_eq:
  "FadePreviousTrack v s =
     s\<lparr>previous_track_opacity := v,
       previous_track := (if v = 0 then QPixmap_null else previous_track s),
       update_calls := Suc (update_calls s)\<rparr>"
  by (simp add: FadePreviousTrack_def qFuzzyCompare_def update_def Let_def)

lemma step_fade_started:
  assumes "step e opn s = Inr s2" and "fade_animation s2 \<noteq> fade_animation s"
  shows "(\<exists>img. opn = Op_AlbumArtLoaded (load_cover_id s) img \<and>
               cover s2 = QPixmap_fromImage img) \<and>
         \<not> QPixmap_isNull (previous_track s) \<and>
         fade_animation s2 = start (fade_animation s)"
proof -
  from step_fade_frame [OF assms(1)] assms(2)
  obtain i img where opn: "opn = Op_AlbumArtLoaded i img" by blast
  with assms(1) have s2: "s2 = AlbumArtLoaded i img s" by simp
  from assms(2) have "i = load_cover_id s \<and> \<not> QPixmap_isNull (previous_track s)"
    unfolding s2 AlbumArtLoaded_fade(1) by (auto split: if_splits)
  then show ?thesis
    by (simp add: opn s2 AlbumArtLoaded_fade)
qed

lemma NowPlaying_cached:
  assumes "NowPlaying e m s = Inr s1" and "visible s"
  shows "previous_track s1 =
           (if 0 < width s \<and> 0 < height s
            then QPixmap_canvas (width s) (height s)
                   (fill (palette_background s) # DrawContents e s)
            else QPixmap_null)"
  using NowPlaying_previous_track(1) [OF assms(1)] assms(2)
  by (simp add: rendering_def QPixmap_of_size_def)

lemma DrawContents_small:
  assumes "mode s = SmallSongDetails"
  shows "DrawContents e s =
     [drawPixmap 0 0 (small_ideal_height s) (small_ideal_height s)
        (case hypnotoad s of Some h \<Rightarrow> currentPixmap e h | None \<Rightarrow> cover s),
      translate (add32 (small_ideal_height s) 2) 0,
      drawContents (details s),
      translate (sub32 (neg32 (small_ideal_height s)) 2) 0]"
  using assms by (simp add: DrawContents_def shown_pixmap_def kPadding_def)

lemma DrawContents_large:
  assumes "mode s = LargeSongDetails"
  shows "DrawContents e s =
     [fillRect 0 4 (width s) (sub32 (height s) 4) (QColor 0 0 0 255),
      drawPixmap (sub32 (width s) (cover_height s) sdiv 2) 4
        (min 260 (width s)) (min 260 (width s))
        (case hypnotoad s of Some h \<Rightarrow> currentPixmap e h | None \<Rightarrow> cover s),
      fillRect_gradient 0
        (sub32 (sub32 (height s) (max (document_height e (details s)) 0)) 40)
        (width s)
        (sub32 (height s)
           (sub32 (sub32 (height s) (max (document_height e (details s)) 0)) 40))
        (QLinearGradient
           0 (sub32 (sub32 (height s) (max (document_height e (details s)) 0)) 40)
           0 (add32 (sub32 (height s) (max (document_height e (details s)) 0)) 20)
           [(0, QColor 0 0 0 0), (1, QColor 0 0 0 255)]),
      translate (sub32 (width s) (cover_height s) sdiv 2)
        (sub32 (height s) (document_height e (details s))),
      drawContents (details s),
      translate (neg32 (sub32 (width s) (cover_height s) sdiv 2))
        (add32 (neg32 (height s)) (document_height e (details s)))]"
  using assms
  by (simp add: DrawContents_def shown_pixmap_def kMaxCoverSize_def kTopBorder_def
      kBottomOffset_def kGradientHead_def kGradientTail_def Qt_black_def Let_def)

text \<open>
  C1. The widget fades from the previous track's artwork to the current one.
  \<open>NowPlaying\<close> on a visible widget caches the current rendering as the pixmap of
  the previous track, with opacity 1: a pixmap of the widget's size (null when a side
  is not positive), filled with the background colour, on which \<open>DrawContents\<close> has
  painted what \<open>paintEvent\<close> paints before it lays the previous track over it. The
  commands of \<open>DrawContents\<close> are spelled out for the small and the large mode, with
  the 32-bit wrap-around of their sums. On a hidden widget nothing is cached. Of all
  operations only \<open>AlbumArtLoaded\<close> touches the fade animation, and it starts it
  exactly when the cover of the latest request arrives and a cached pixmap exists.
  \<open>FadePreviousTrack\<close> stores the opacity it is given and, at 0, clears the cached
  pixmap to the null pixmap.
\<close>

theorem fade_previous_track:
  "(NowPlaying e m s = Inr s1 \<longrightarrow> visible s \<longrightarrow>
      previous_track_opacity s1 = 1 \<and>
      previous_track s1 =
        (if 0 < width s \<and> 0 < height s
         then QPixmap_canvas (width s) (height s)
                (fill (palette_background s) # DrawContents e s)
         else QPixmap_null)) \<and>
   (NowPlaying e m s = Inr s1 \<longrightarrow> \<not> visible s \<longrightarrow>
      previous_track_opacity s1 = previous_track_opacity s \<and>
      previous_track s1 = previous_track s) \<and>
   screen (paintEvent e s) =
     DrawContents e s @
     (if QPixmap_isNull (previous_track s) then []
      else [setOpacity (previous_track_opacity s), drawPixmap_at 0 0 (previous_track s)]) \<and>
   (mode s = SmallSongDetails \<longrightarrow>
      DrawContents e s =
        [drawPixmap 0 0 (small_ideal_height s) (small_ideal_height s)
           (case hypnotoad s of Some h \<Rightarrow> currentPixmap e h | None \<Rightarrow> cover s),
         translate (add32 (small_ideal_height s) 2) 0,
         drawContents (details s),
         translate (sub32 (neg32 (small_ideal_height s)) 2) 0]) \<and>
   (mode s = LargeSongDetails \<longrightarrow>
      DrawContents e s =
        [fillRect 0 4 (width s) (sub32 (height s) 4) (QColor 0 0 0 255),
         drawPixmap (sub32 (width s) (cover_height s) sdiv 2) 4
           (min 260 (width s)) (min 260 (width s))
           (case hypnotoad s of Some h \<Rightarrow> currentPixmap e h | None \<Rightarrow> cover s),
         fillRect_gradient 0
           (sub32 (sub32 (height s) (max (document_height e (details s)) 0)) 40)
           (width s)
           (sub32 (height s)
              (sub32 (sub32 (height s) (max (document_height e (details s)) 0)) 40))
           (QLinearGradient
              0 (sub32 (sub32 (height s) (max (document_height e (details s)) 0)) 40)
              0 (add32 (sub32 (height s) (max (document_height e (details s)) 0)) 20)
              [(0, QColor 0 0 0 0), (1, QColor 0 0 0 255)]),
         translate (sub32 (width s) (cover_height s) sdiv 2)
           (sub32 (height s) (document_height e (details s))),
         drawContents (details s),
         translate (neg32 (sub32 (width s) (cover_height s) sdiv 2))
           (add32 (neg32 (height s)) (document_height e (details s)))]) \<and>
   add32 a b = (a + b + 2147483648) mod 4294967296 - 2147483648 \<and>
   sub32 a b = (a - b + 2147483648) mod 4294967296 - 2147483648 \<and>
   neg32 a = (- a + 2147483648) mod 4294967296 - 2147483648 \<and>
   (step e opn s = Inr s2 \<longrightarrow> fade_animation s2 \<noteq> fade_animation s \<longrightarrow>
      (\<exists>img. opn = Op_AlbumArtLoaded (load_cover_id s) img \<and>
             cover s2 = QPixmap_fromImage img) \<and>
      \<not> QPixmap_isNull (previous_track s) \<and>
      fade_animation s2 = start (fade_animation s)) \<and>
   (\<not> QPixmap_isNull (previous_track s) \<longrightarrow>
      fade_animation (AlbumArtLoaded (load_cover_id s) img s) = start (fade_animation s)) \<and>
   previous_track_opacity (FadePreviousTrack v s) = v \<and>
   previous_track (FadePreviousTrack v s) = (if v = 0 then QPixmap_null else previous_track s)"
proof -
  have a: "NowPlaying e m s = Inr s1 \<longrightarrow> visible s \<longrightarrow>
      previous_track_opacity s1 = 1 \<and>
      previous_track s1 =
        (if 0 < width s \<and> 0 < height s
         then QPixmap_canvas (width s) (height s)
                (fill (palette_background s) # DrawContents e s)
         else QPixmap_null)"
    using NowPlaying_cached [of e m s s1] NowPlaying_previous_track(2) [of e m s s1]
    by simp
  have b: "NowPlaying e m s = Inr s1 \<longrightarrow> \<not> visible s \<longrightarrow>
      previous_track_opacity s1 = previous_track_opacity s \<and>
      previous_track s1 = previous_track s"
    using NowPlaying_previous_track [of e m s s1] by simp
  have c: "screen (paintEvent e s) =
     DrawContents e s @
     (if QPixmap_isNull (previous_track s) then []
      else [setOpacity (previous_track_opacity s), drawPixmap_at 0 0 (previous_track s)])"
    by (simp add: paintEvent_def)
  have d: "add32 a b = (a + b + 2147483648) mod 4294967296 - 2147483648"
    "sub32 a b = (a - b + 2147483648) mod 4294967296 - 2147483648"
    "neg32 a = (- a + 2147483648) mod 4294967296 - 2147483648"
    by (simp_all add: add32_def sub32_def neg32_def int32_def)
  have f: "step e opn s = Inr s2 \<longrightarrow> fade_animation s2 \<noteq> fade_animation s \<longrightarrow>
      (\<exists>img. opn = Op_AlbumArtLoaded (load_cover_id s) img \<and>
             cover s2 = QPixmap_fromImage img) \<and>
      \<not> QPixmap_isNull (previous_track s) \<and>
      fade_animation s2 = start (fade_animation s)"
    using step_fade_started [of e opn s s2] by blast
  have g: "\<not> QPixmap_isNull (previous_track s) \<longrightarrow>
      fade_animation (AlbumArtLoaded (load_cover_id s) img s) = start (fade_animation s)"
    "previous_track_opacity (FadePreviousTrack v s) = v"
    "previous_track (FadePreviousTrack v s) = (if v = 0 then QPixmap_null else previous_track s)"
    by (simp_all add: AlbumArtLoaded_fade FadePreviousTrack_eq)
  show ?thesis
    using a b c d f g DrawContents_small [of s e] DrawContents_large [of s e]
    by blast
qed

lemma loaded0_step:
  "step env0 (Op_AlbumArtLoaded 5 (QImage_data ''b.jpg'')) fading0 = Inr loaded0"
  by (simp add: loaded0_def fading0_facts)

lemma NowPlaying_run_isl:
  assumes "\<not> isl (get_worker (current_loader s) s)"
  shows "NowPlaying e m s = Inr (case NowPlaying e m s of Inr x \<Rightarrow> x | Inl err \<Rightarrow> d)"
proof -
  from assms obtain w where "get_worker (current_loader s) s = Inr w"
    by (cases "get_worker (current_loader s) s") simp_all
  then show ?thesis by (rule NowPlaying_run)
qed

lemma tuned_workers:
  "\<not> isl (get_worker (current_loader tuned2) tuned2)"
  "\<not> isl (get_worker (current_loader wide0) wide0)"
  by code_simp+

lemma tuned3_run: "NowPlaying env0 song2 tuned2 = Inr tuned3"
  unfolding tuned3_def by (rule NowPlaying_run_isl [OF tuned_workers(1)])

lemma wide1_run: "NowPlaying env0 song2 wide0 = Inr wide1"
  unfolding wide1_def by (rule NowPlaying_run_isl [OF tuned_workers(2)])

lemma tuned_facts:
  "visible tuned2" "visible wide0"
  "mode tuned2 = SmallSongDetails" "mode wide0 = LargeSongDetails"
  "previous_track_opacity tuned3 = 1" "previous_track_opacity wide1 = 1"
  "previous_track tuned3 =
     QPixmap_canvas 300 64
       [fill (QColor 239 239 239 255),
        drawPixmap 0 0 66 66 (QPixmap_image ''a.jpg''),
        translate 68 0,
        drawContents \<lparr>textWidth = - 1, defaultStyleSheet = [],
                        html = ''<p><i>Title</i><br/>Artist<br/>Album</p>''\<rparr>,
        translate (- 68) 0]"
  "previous_track wide1 =
     QPixmap_canvas 300 64
       [fill (QColor 239 239 239 255),
        fillRect 0 4 300 60 (QColor 0 0 0 255),
        drawPixmap 20 4 260 260 (QPixmap_image ''a.jpg''),
        fillRect_gradient 0 (- 6) 300 70
          (QLinearGradient 0 (- 6) 0 54 [(0, QColor 0 0 0 0), (1, QColor 0 0 0 255)]),
        translate 20 34,
        drawContents \<lparr>textWidth = 260,
                        defaultStyleSheet = ''p {  font-size: small;  color: white;}'',
                        html = ''<p align=center><i>Title</i><br/>Artist<br/>Album</p>''\<rparr>,
        translate (- 20) (- 34)]"
  "screen (paintEvent env0 tuned3) =
     [drawPixmap 0 0 66 66 QPixmap_null,
      translate 68 0,
      drawContents \<lparr>textWidth = - 1, defaultStyleSheet = [],
                      html = ''<p><i>Other</i><br/>Band<br/>Record</p>''\<rparr>,
      translate (- 68) 0,
      setOpacity 1,
      drawPixmap_at 0 0
        (QPixmap_canvas 300 64
           [fill (QColor 239 239 239 255),
            drawPixmap 0 0 66 66 (QPixmap_image ''a.jpg''),
            translate 68 0,
            drawContents \<lparr>textWidth = - 1, defaultStyleSheet = [],
                            html = ''<p><i>Title</i><br/>Artist<br/>Album</p>''\<rparr>,
            translate (- 68) 0])]"
  "mode (tuned2\<lparr>small_ideal_height := 2147483647\<rparr>) = SmallSongDetails"
  "DrawContents env0 (tuned2\<lparr>small_ideal_height := 2147483647\<rparr>) =
     [drawPixmap 0 0 2147483647 2147483647 (QPixmap_image ''a.jpg''),
      translate (- 2147483647) 0,
      drawContents \<lparr>textWidth = - 1, defaultStyleSheet = [],
                      html = ''<p><i>Title</i><br/>Artist<br/>Album</p>''\<rparr>,
      translate 2147483647 0]"
  "add32 2147483647 2 = - 2147483647" "sub32 (neg32 2147483647) 2 = 2147483647"
  "previous_track playing0 = QPixmap_null" "previous_track ready0 = QPixmap_null"
  "previous_track_opacity playing0 = 0" "previous_track_opacity ready0 = 0"
  by code_simp+

theorem fade_previous_track_witness:
  "visible tuned2 \<and> NowPlaying env0 song2 tuned2 = Inr tuned3 \<and>
   previous_track_opacity tuned3 = 1 \<and>
   previous_track tuned3 =
     QPixmap_canvas 300 64
       [fill (QColor 239 239 239 255),
        drawPixmap 0 0 66 66 (QPixmap_image ''a.jpg''),
        translate 68 0,
        drawContents \<lparr>textWidth = - 1, defaultStyleSheet = [],
                        html = ''<p><i>Title</i><br/>Artist<br/>Album</p>''\<rparr>,
        translate (- 68) 0] \<and>
   visible wide0 \<and> mode wide0 = LargeSongDetails \<and>
   NowPlaying env0 song2 wide0 = Inr wide1 \<and>
   previous_track_opacity wide1 = 1 \<and>
   previous_track wide1 =
     QPixmap_canvas 300 64
       [fill (QColor 239 239 239 255),
        fillRect 0 4 300 60 (QColor 0 0 0 255),
        drawPixmap 20 4 260 260 (QPixmap_image ''a.jpg''),
        fillRect_gradient 0 (- 6) 300 70
          (QLinearGradient 0 (- 6) 0 54 [(0, QColor 0 0 0 0), (1, QColor 0 0 0 255)]),
        translate 20 34,
        drawContents \<lparr>textWidth = 260,
                        defaultStyleSheet = ''p {  font-size: small;  color: white;}'',
                        html = ''<p align=center><i>Title</i><br/>Artist<br/>Album</p>''\<rparr>,
        translate (- 20) (- 34)] \<and>
   \<not> visible ready0 \<and> NowPlaying env0 song1 ready0 = Inr playing0 \<and>
   previous_track playing0 = QPixmap_null \<and> previous_track_opacity playing0 = 0 \<and>
   screen (paintEvent env0 tuned3) =
     [drawPixmap 0 0 66 66 QPixmap_null,
      translate 68 0,
      drawContents \<lparr>textWidth = - 1, defaultStyleSheet = [],
                      html = ''<p><i>Other</i><br/>Band<br/>Record</p>''\<rparr>,
      translate (- 68) 0,
      setOpacity 1,
      drawPixmap_at 0 0 (previous_track tuned3)] \<and>
   mode (tuned2\<lparr>small_ideal_height := 2147483647\<rparr>) = SmallSongDetails \<and>
   DrawContents env0 (tuned2\<lparr>small_ideal_height := 2147483647\<rparr>) =
     [drawPixmap 0 0 2147483647 2147483647 (QPixmap_image ''a.jpg''),
      translate (- 2147483647) 0,
      drawContents \<lparr>textWidth = - 1, defaultStyleSheet = [],
                      html = ''<p><i>Title</i><br/>Artist<br/>Album</p>''\<rparr>,
      translate 2147483647 0] \<and>
   step env0 (Op_AlbumArtLoaded 5 (QImage_data ''b.jpg'')) fading0 = Inr loaded0 \<and>
   fade_animation loaded0 \<noteq> fade_animation fading0 \<and>
   \<not> QPixmap_isNull (previous_track fading0) \<and>
   fade_animation loaded0 = start (fade_animation fading0) \<and>
   cover loaded0 = QPixmap_image ''b.jpg'' \<and>
   previous_track_opacity (FadePreviousTrack 0 loaded0) = 0 \<and>
   previous_track (FadePreviousTrack 0 loaded0) = QPixmap_null"
proof -
  have ne: "fade_animation loaded0 \<noteq> fade_animation fading0"
    by (simp add: loaded0_def AlbumArtLoaded_fade fading0_facts start_changes)
  show ?thesis
    using fade_previous_track [of env0 song2 tuned2 tuned3]
      fade_previous_track [of env0 song2 wide0 wide1]
      fade_previous_track [of env0 song1 ready0 playing0]
      fade_previous_track [of env0 song2 fading0 _ _ _
        "Op_AlbumArtLoaded 5 (QImage_data ''b.jpg'')" loaded0]
      fade_previous_track [of env0 song2 loaded0 _ _ _ _ _ _ 0]
      tuned3_run wide1_run playing0_run loaded0_step ne
    by (simp add: playing0_facts fading0_facts tuned_facts)
qed

lemma NowPlaying_total:
  "(\<exists>s'. NowPlaying e m s = Inr s') \<longleftrightarrow> (\<exists>w. get_worker (current_loader s) s = Inr w)"
  unfolding NowPlaying_Inr by blast

lemma NowPlaying_request:
  assumes "NowPlaying e m s = Inr s'"
  shows "html (details s') =
           (case mode s of SmallSongDetails \<Rightarrow> ''<p>''
            | LargeSongDetails \<Rightarrow> ''<p align=center>'' | Mode_other i \<Rightarrow> []) @
           ''<i>'' @ escape e (PrettyTitle e m) @ ''</i><br/>'' @ escape e (artist m) @
           ''<br/>'' @ escape e (album m) @ ''</p>''"
    and "\<exists>w. get_worker (current_loader s) s = Inr w \<and>
           get_worker (current_loader s) s' =
             Inr (w @ [SetDesiredHeight (cover_height s'),
                       SetDefaultOutputImage (QImage_of_file e '':nocover.png''),
                       LoadImageAsync m]) \<and>
           load_cover_id s' =
             LoadImageAsync_id e (current_loader s)
               (w @ [SetDesiredHeight (cover_height s'),
                     SetDefaultOutputImage (QImage_of_file e '':nocover.png'')]) m"
proof -
  from assms obtain w where w: "get_worker (current_loader s) s = Inr w"
    and s': "s' = update (SetVisible True (UpdateDetailsText e
                 (UpdateHeight_loader e (current_loader s) w
                   (UpdateHeight_animation (UpdateHeight_sizes
                     ((cache_previous_track e s)\<lparr>metadata := m, cover := QPixmap_null\<rparr>))))))"
    unfolding NowPlaying_Inr by blast
  show "html (details s') =
           (case mode s of SmallSongDetails \<Rightarrow> ''<p>''
            | LargeSongDetails \<Rightarrow> ''<p align=center>'' | Mode_other i \<Rightarrow> []) @
           ''<i>'' @ escape e (PrettyTitle e m) @ ''</i><br/>'' @ escape e (artist m) @
           ''<br/>'' @ escape e (album m) @ ''</p>''"
    unfolding s' by (simp add: normal_form details_html_def split: Mode.splits)
  have "get_worker (current_loader s) s' =
             Inr (w @ [SetDesiredHeight (cover_height s'),
                       SetDefaultOutputImage (QImage_of_file e '':nocover.png''),
                       LoadImageAsync m])"
    unfolding s' by (cases "current_loader s") (simp_all add: normal_form)
  moreover have "load_cover_id s' =
             LoadImageAsync_id e (current_loader s)
               (w @ [SetDesiredHeight (cover_height s'),
                     SetDefaultOutputImage (QImage_of_file e '':nocover.png'')]) m"
    unfolding s' by (simp add: normal_form)
  ultimately show "\<exists>w. get_worker (current_loader s) s = Inr w \<and>
           get_worker (current_loader s) s' =
             Inr (w @ [SetDesiredHeight (cover_height s'),
                       SetDefaultOutputImage (QImage_of_file e '':nocover.png''),
                       LoadImageAsync m]) \<and>
           load_cover_id s' =
             LoadImageAsync_id e (current_loader s)
               (w @ [SetDesiredHeight (cover_height s'),
                     SetDefaultOutputImage (QImage_of_file e '':nocover.png'')]) m"
    using w by blast
qed

text \<open>
  C4. The widget reflects the latest track. When \<open>NowPlaying m\<close> returns, the stored
  metadata is \<open>m\<close>, the cover shown is the null pixmap until the loader answers, the
  details text is built from the title, the artist and the album of \<open>m\<close>, the loader
  has received a request for \<open>m\<close> whose id is now \<open>load_cover_id_\<close>, and the widget
  is visible. It returns exactly when the chosen loader has a worker.
\<close>

theorem NowPlaying_reflects_metadata:
  "(NowPlaying e m s = Inr s' \<longrightarrow>
      metadata s' = m \<and> cover s' = QPixmap_null \<and> visible s' \<and>
      html (details s') =
        (case mode s of SmallSongDetails \<Rightarrow> ''<p>''
         | LargeSongDetails \<Rightarrow> ''<p align=center>'' | Mode_other i \<Rightarrow> []) @
        ''<i>'' @ escape e (PrettyTitle e m) @ ''</i><br/>'' @ escape e (artist m) @
        ''<br/>'' @ escape e (album m) @ ''</p>'' \<and>
      (\<exists>w. get_worker (current_loader s) s = Inr w \<and>
           get_worker (current_loader s) s' =
             Inr (w @ [SetDesiredHeight (cover_height s'),
                       SetDefaultOutputImage (QImage_of_file e '':nocover.png''),
                       LoadImageAsync m]) \<and>
           load_cover_id s' =
             LoadImageAsync_id e (current_loader s)
               (w @ [SetDesiredHeight (cover_height s'),
                     SetDefaultOutputImage (QImage_of_file e '':nocover.png'')]) m)) \<and>
   ((\<exists>t. NowPlaying e m s = Inr t) \<longleftrightarrow> (\<exists>w. get_worker (current_loader s) s = Inr w))"
  using NowPlaying_frame(9,10,11) [of e m s s'] NowPlaying_request [of e m s s']
    NowPlaying_total [of e m s]
  by blast

lemma playing0_request:
  "get_worker (current_loader ready0) playing0 =
     Inr [SetDesiredHeight 0, SetDefaultOutputImage (QImage_data '':nocover.png''),
          LoadImageAsync song1]"
  by code_simp

theorem NowPlaying_reflects_metadata_witness:
  "get_worker (current_loader ready0) ready0 = Inr [] \<and>
   NowPlaying env0 song1 ready0 = Inr playing0 \<and>
   metadata playing0 = song1 \<and> cover playing0 = QPixmap_null \<and> visible playing0 \<and>
   html (details playing0) = ''<p><i>Title</i><br/>Artist<br/>Album</p>'' \<and>
   get_worker (current_loader ready0) playing0 =
     Inr [SetDesiredHeight 0, SetDefaultOutputImage (QImage_data '':nocover.png''),
          LoadImageAsync song1] \<and>
   load_cover_id playing0 = 2"
  using NowPlaying_reflects_metadata [of env0 song1 ready0 playing0] playing0_run
    ready0_worker playing0_request
  by (simp add: playing0_facts)





lemma UpdateHeight_layout:
  assumes "UpdateHeight e k s = Inr s'" and "mode s' = LargeSongDetails"
  shows "cover_height s' = min 260 (width s') \<and> cover_height s' \<le> 260 \<and>
         total_height s' = 4 + cover_height s'"
proof -
  from assms(1) obtain w where
    s': "s' = UpdateHeight_loader e k w (UpdateHeight_animation (UpdateHeight_sizes s))"
    unfolding UpdateHeight_Inr by blast
  from assms(2) have "mode s = LargeSongDetails"
    using UpdateHeight_frame(4) [OF assms(1)] by simp
  then show ?thesis
    unfolding s' by (simp add: normal_form)
qed

lemma NowPlaying_layout:
  assumes "NowPlaying e m s = Inr s'" and "mode s' = LargeSongDetails"
  shows "cover_height s' = min 260 (width s') \<and> cover_height s' \<le> 260 \<and>
         total_height s' = 4 + cover_height s'"
proof -
  from assms(1) obtain w where s': "s' = update (SetVisible True (UpdateDetailsText e
                 (UpdateHeight_loader e (current_loader s) w
                   (UpdateHeight_animation (UpdateHeight_sizes
                     ((cache_previous_track e s)\<lparr>metadata := m, cover := QPixmap_null\<rparr>))))))"
    unfolding NowPlaying_Inr by blast
  from assms(2) have "mode s = LargeSongDetails"
    using NowPlaying_frame(4) [OF assms(1)] by simp
  then show ?thesis
    unfolding s' by (simp add: normal_form)
qed

lemma SetMode_layout:
  assumes "SetMode e i s = Inr s'" and "mode s' = LargeSongDetails"
  shows "cover_height s' = min 260 (width s') \<and> cover_height s' \<le> 260 \<and>
         total_height s' = 4 + cover_height s'"
proof -
  from assms(1) obtain s2 where
    u: "UpdateHeight e (current_loader s) (s\<lparr>mode := Mode_of_int e i\<rparr>) = Inr s2"
    and s': "s' = (update (UpdateDetailsText e s2))\<lparr>settings :=
                  settings_setValue kSettingsGroup ''mode''
                    (QVariant_int (int_of_Mode e (Mode_of_int e i))) (settings s)\<rparr>"
    unfolding SetMode_Inr by blast
  from assms(2) have "mode s2 = LargeSongDetails"
    unfolding s' by (simp add: normal_form)
  from UpdateHeight_layout [OF u this] show ?thesis
    unfolding s' by (simp add: normal_form)
qed

lemma set_ideal_height_layout:
  assumes "set_ideal_height e h s = Inr s'" and "mode s' = LargeSongDetails"
  shows "cover_height s' = min 260 (width s') \<and> cover_height s' \<le> 260 \<and>
         total_height s' = 4 + cover_height s'"
  using assms UpdateHeight_layout [of e _ "s\<lparr>small_ideal_height := h\<rparr>" s']
  by (simp add: set_ideal_height_def Let_def)

lemma resizeEvent_layout:
  assumes "resizeEvent e old new s = Inr s'" and "visible s" and "fst old \<noteq> fst new"
    and "mode s' = LargeSongDetails"
  shows "cover_height s' = min 260 (width s') \<and> cover_height s' \<le> 260 \<and>
         total_height s' = 4 + cover_height s'"
proof (cases "mode s = LargeSongDetails")
  case True
  with assms obtain s1 where u: "UpdateHeight e (current_loader s) s = Inr s1"
    and s': "s' = UpdateDetailsText e s1"
    by (auto simp: resizeEvent_Inr)
  from assms(4) have "mode s1 = LargeSongDetails"
    unfolding s' by (simp add: normal_form)
  from UpdateHeight_layout [OF u this] show ?thesis
    unfolding s' by (simp add: normal_form)
next
  case False
  with assms(1) have "s' = s"
    by (simp add: resizeEvent_Inr)
  with False assms(4) show ?thesis by simp
qed

text \<open>
  C9. The layout of the large cover. After each operation that recomputes the layout
  (\<open>UpdateHeight\<close> itself, and through it \<open>NowPlaying\<close>, \<open>SetMode\<close>,
  \<open>set_ideal_height\<close> and a resize of a visible widget that changes the width), if
  the mode is the large one then \<open>cover_height_\<close> is the smaller of 260 and the
  widget's width, hence at most 260, and \<open>total_height_\<close> is 4 more.
\<close>

theorem large_cover_layout:
  "(UpdateHeight e k s = Inr s' \<longrightarrow> mode s' = LargeSongDetails \<longrightarrow>
      cover_height s' = min 260 (width s') \<and> cover_height s' \<le> 260 \<and>
      total_height s' = 4 + cover_height s') \<and>
   (NowPlaying e m s = Inr s' \<longrightarrow> mode s' = LargeSongDetails \<longrightarrow>
      cover_height s' = min 260 (width s') \<and> cover_height s' \<le> 260 \<and>
      total_height s' = 4 + cover_height s') \<and>
   (SetMode e i s = Inr s' \<longrightarrow> mode s' = LargeSongDetails \<longrightarrow>
      cover_height s' = min 260 (width s') \<and> cover_height s' \<le> 260 \<and>
      total_height s' = 4 + cover_height s') \<and>
   (set_ideal_height e h s = Inr s' \<longrightarrow> mode s' = LargeSongDetails \<longrightarrow>
      cover_height s' = min 260 (width s') \<and> cover_height s' \<le> 260 \<and>
      total_height s' = 4 + cover_height s') \<and>
   (resizeEvent e old new s = Inr s' \<longrightarrow> visible s \<longrightarrow> fst old \<noteq> fst new \<longrightarrow>
      mode s' = LargeSongDetails \<longrightarrow>
      cover_height s' = min 260 (width s') \<and> cover_height s' \<le> 260 \<and>
      total_height s' = 4 + cover_height s')"
  using UpdateHeight_layout [of e k s s'] NowPlaying_layout [of e m s s']
    SetMode_layout [of e i s s'] set_ideal_height_layout [of e h s s']
    resizeEvent_layout [of e old new s s']
  by blast

lemma large0_worker: "get_worker (current_loader playing0) (playing0\<lparr>mode := Mode_of_int env0 1\<rparr>) =
  Inr [SetDesiredHeight 0, SetDefaultOutputImage (QImage_data '':nocover.png''), LoadImageAsync song1]"
  by code_simp

lemma large0_run: "SetMode env0 1 playing0 = Inr large0"
proof -
  from large0_worker obtain s2 where
    "UpdateHeight env0 (current_loader playing0) (playing0\<lparr>mode := Mode_of_int env0 1\<rparr>) = Inr s2"
    unfolding UpdateHeight_Inr by blast
  then obtain t where "SetMode env0 1 playing0 = Inr t"
    unfolding SetMode_Inr by blast
  then show ?thesis by (simp add: large0_def)
qed

lemma large0_facts:
  "mode large0 = LargeSongDetails" "width large0 = 300" "cover_height large0 = 260"
  "total_height large0 = 264" "visible large0"
  "mode narrow0 = LargeSongDetails" "width narrow0 = 200" "cover_height narrow0 = 200"
  "total_height narrow0 = 204"
  by code_simp+

lemma narrow0_worker:
  "get_worker (current_loader (large0\<lparr>width := 200, height := 264\<rparr>))
     (large0\<lparr>width := 200, height := 264\<rparr>) =
   Inr [SetDesiredHeight 0, SetDefaultOutputImage (QImage_data '':nocover.png''),
        LoadImageAsync song1, SetDesiredHeight 260,
        SetDefaultOutputImage (QImage_data '':nocover.png''), LoadImageAsync song1]"
  by code_simp

lemma narrow0_run:
  "resizeEvent env0 (300, 264) (200, 264) (large0\<lparr>width := 200, height := 264\<rparr>) = Inr narrow0"
proof -
  from narrow0_worker obtain s1 where
    "UpdateHeight env0 (current_loader (large0\<lparr>width := 200, height := 264\<rparr>))
       (large0\<lparr>width := 200, height := 264\<rparr>) = Inr s1"
    unfolding UpdateHeight_Inr by blast
  then obtain t where
    "resizeEvent env0 (300, 264) (200, 264) (large0\<lparr>width := 200, height := 264\<rparr>) = Inr t"
    unfolding resizeEvent_Inr by (simp add: large0_facts)
  then show ?thesis by (simp add: narrow0_def)
qed

lemma UpdateHeight_run:
  assumes "get_worker k s = Inr w"
  shows "UpdateHeight e k s = Inr (case UpdateHeight e k s of Inr x \<Rightarrow> x | Inl err \<Rightarrow> d)"
  using assms by (simp add: UpdateHeight_eq)

lemma large0_loader:
  "get_worker (current_loader large0) large0 =
     Inr [SetDesiredHeight 0, SetDefaultOutputImage (QImage_data '':nocover.png''),
          LoadImageAsync song1, SetDesiredHeight 260,
          SetDefaultOutputImage (QImage_data '':nocover.png''), LoadImageAsync song1]"
  "get_worker CoverLoader large0 =
     Inr [SetDesiredHeight 0, SetDefaultOutputImage (QImage_data '':nocover.png''),
          LoadImageAsync song1, SetDesiredHeight 260,
          SetDefaultOutputImage (QImage_data '':nocover.png''), LoadImageAsync song1]"
  "get_worker (current_loader (large0\<lparr>small_ideal_height := 66\<rparr>))
     (large0\<lparr>small_ideal_height := 66\<rparr>) =
     Inr [SetDesiredHeight 0, SetDefaultOutputImage (QImage_data '':nocover.png''),
          LoadImageAsync song1, SetDesiredHeight 260,
          SetDefaultOutputImage (QImage_data '':nocover.png''), LoadImageAsync song1]"
  by code_simp+

lemma large1_run: "NowPlaying env0 song2 large0 = Inr large1"
  unfolding large1_def by (rule NowPlaying_run [OF large0_loader(1)])

lemma large3_run: "UpdateHeight env0 CoverLoader large0 = Inr large3"
  unfolding large3_def by (rule UpdateHeight_run [OF large0_loader(2)])

lemma large2_run: "set_ideal_height env0 66 large0 = Inr large2"
  unfolding large2_def set_ideal_height_def Let_def
  by (rule UpdateHeight_run [OF large0_loader(3)])

lemma large123_facts:
  "mode large1 = LargeSongDetails" "width large1 = 300" "cover_height large1 = 260"
  "total_height large1 = 264"
  "mode large2 = LargeSongDetails" "width large2 = 300" "cover_height large2 = 260"
  "total_height large2 = 264"
  "mode large3 = LargeSongDetails" "width large3 = 300" "cover_height large3 = 260"
  "total_height large3 = 264"
  by code_simp+

theorem large_cover_layout_witness:
  "SetMode env0 1 playing0 = Inr large0 \<and> mode large0 = LargeSongDetails \<and>
   width large0 = 300 \<and> cover_height large0 = 260 \<and> total_height large0 = 264 \<and>
   resizeEvent env0 (300, 264) (200, 264) (large0\<lparr>width := 200, height := 264\<rparr>) =
     Inr narrow0 \<and>
   visible (large0\<lparr>width := 200, height := 264\<rparr>) \<and> mode narrow0 = LargeSongDetails \<and>
   width narrow0 = 200 \<and> cover_height narrow0 = 200 \<and> total_height narrow0 = 204 \<and>
   NowPlaying env0 song2 large0 = Inr large1 \<and> mode large1 = LargeSongDetails \<and>
   width large1 = 300 \<and> cover_height large1 = 260 \<and> total_height large1 = 264 \<and>
   set_ideal_height env0 66 large0 = Inr large2 \<and> mode large2 = LargeSongDetails \<and>
   width large2 = 300 \<and> cover_height large2 = 260 \<and> total_height large2 = 264 \<and>
   UpdateHeight env0 CoverLoader large0 = Inr large3 \<and> mode large3 = LargeSongDetails \<and>
   width large3 = 300 \<and> cover_height large3 = 260 \<and> total_height large3 = 264"
  using large_cover_layout [of env0 _ playing0 large0 _ 1]
    large_cover_layout [of env0 _ "large0\<lparr>width := 200, height := 264\<rparr>" narrow0 _ _ _
      "(300, 264)" "(200, 264)"]
    large_cover_layout [of env0 _ large0 large1 song2]
    large_cover_layout [of env0 _ large0 large2 _ _ 66]
    large_cover_layout [of env0 CoverLoader large0 large3]
    large0_run narrow0_run large1_run large2_run large3_run
  by (simp add: large0_facts large123_facts)








lemma unset0_facts:
  "metadata unset0 = song1\<lparr>art_manual := ''(unset)''\<rparr>"
  "backend unset0 = Some [UpdateManualAlbumArtAsync ''Artist'' ''Album'' ''(unset)'']"
  "kManuallyUnsetCover env0 = ''(unset)''"
  by code_simp+



text \<open>
  C10. On a context menu event the actions "Unset cover" and "Show fullsize" are
  enabled exactly when the manual-art field of the current track is neither empty
  nor the sentinel for a cover unset by hand; otherwise both are disabled.
\<close>

theorem contextMenuEvent_enables_unset_and_zoom:
  "enabled (unset_cover (contextMenuEvent e s)) =
     (art_manual (metadata s) \<noteq> [] \<and> art_manual (metadata s) \<noteq> kManuallyUnsetCover e) \<and>
   enabled (show_cover (contextMenuEvent e s)) =
     (art_manual (metadata s) \<noteq> [] \<and> art_manual (metadata s) \<noteq> kManuallyUnsetCover e)"
  by (simp add: contextMenuEvent_def art_is_set_def setEnabled_def Let_def)

theorem contextMenuEvent_enables_unset_and_zoom_witness:
  "enabled (unset_cover (contextMenuEvent env0 playing0)) \<and>
   enabled (show_cover (contextMenuEvent env0 playing0)) \<and>
   \<not> enabled (unset_cover (contextMenuEvent env0 unset0)) \<and>
   \<not> enabled (show_cover (contextMenuEvent env0 unset0)) \<and>
   \<not> enabled (unset_cover (contextMenuEvent env0 ready0)) \<and>
   \<not> enabled (show_cover (contextMenuEvent env0 ready0))"
  using contextMenuEvent_enables_unset_and_zoom [of env0 playing0]
    contextMenuEvent_enables_unset_and_zoom [of env0 unset0]
    contextMenuEvent_enables_unset_and_zoom [of env0 ready0]
  by (simp add: playing0_facts unset0_facts song1_def ready0_def NowPlayingWidget_new_def members_init_def CreateModeAction_def setMaximumHeight_def ShowAboveStatusBar_def settings_value_def Let_def)

lemmas constructor_defs = NowPlayingWidget_new_def members_init_def CreateModeAction_def
  QAction_new_def setMaximumHeight_def ShowAboveStatusBar_def cover_entries_def Let_def

text \<open>
  C7. The context menu built by the constructor: the two mode actions, a separator,
  then exactly five actions to manage the cover, in this order: load the cover from
  disk, load it from a URL, search for covers, unset the cover, show it in full size;
  then a separator and the status bar action. Each of the five is connected to the
  slot of its name.
\<close>

theorem constructor_menu:
  "menu (NowPlayingWidget_new e base th st) =
     [mode_action SmallSongDetails, mode_action LargeSongDetails, separator,
      choose_cover_action, download_cover_action, search_for_cover_action,
      unset_cover_action, show_cover_action,
      separator, above_statusbar_entry] \<and>
   takeWhile (\<lambda>x. x \<noteq> separator)
     (tl (dropWhile (\<lambda>x. x \<noteq> separator) (menu (NowPlayingWidget_new e base th st)))) =
     [choose_cover_action, download_cover_action, search_for_cover_action,
      unset_cover_action, show_cover_action] \<and>
   map (\<lambda>x. map_option (\<lambda>a. (action_text a, connected a))
               (entry_action (NowPlayingWidget_new e base th st) x))
     [choose_cover_action, download_cover_action, search_for_cover_action,
      unset_cover_action, show_cover_action] =
     [Some (tr e ''Load cover from disk...'', SLOT_LoadCoverFromFile),
      Some (tr e ''Load cover from URL...'', SLOT_LoadCoverFromURL),
      Some (tr e ''Search for album covers...'', SLOT_SearchCover),
      Some (tr e ''Unset cover'', SLOT_UnsetCover),
      Some (tr e ''Show fullsize...'', SLOT_ZoomCover)]"
  by (simp add: constructor_defs)

theorem constructor_menu_witness:
  "menu ready0 =
     [mode_action SmallSongDetails, mode_action LargeSongDetails, separator,
      choose_cover_action, download_cover_action, search_for_cover_action,
      unset_cover_action, show_cover_action,
      separator, above_statusbar_entry] \<and>
   map (\<lambda>x. map_option (\<lambda>a. (action_text a, connected a)) (entry_action ready0 x))
     [choose_cover_action, download_cover_action, search_for_cover_action,
      unset_cover_action, show_cover_action] =
     [Some (''Load cover from disk...'', SLOT_LoadCoverFromFile),
      Some (''Load cover from URL...'', SLOT_LoadCoverFromURL),
      Some (''Search for album covers...'', SLOT_SearchCover),
      Some (''Unset cover'', SLOT_UnsetCover),
      Some (''Show fullsize...'', SLOT_ZoomCover)]"
  using constructor_menu [of env0 base0 0 Map.empty]
  by (simp add: ready0_def env0_def)

lemma constructor_settings:
  "settings (NowPlayingWidget_new e base th st) =
     (if toBool (settings_value st kSettingsGroup ''above_status_bar'' (QVariant_bool False))
      then st(''NowPlayingWidget/above_status_bar'' \<mapsto> QVariant_bool True) else st)"
  by (simp add: constructor_defs settings_setValue_def settings_key_def kSettingsGroup_def)

text \<open>
  C2, as amended. The display state of the widget lives in memory only, but two
  operations write the persistent settings: \<open>SetMode\<close> stores the mode under
  \<open>NowPlayingWidget/mode\<close> and \<open>ShowAboveStatusBar\<close> stores its argument under
  \<open>NowPlayingWidget/above_status_bar\<close>. Every other operation leaves the settings
  as they are.
\<close>

theorem settings_written_by_two_operations:
  "(step e opn s = Inr s' \<longrightarrow> (\<forall>m. opn \<noteq> Op_SetMode m) \<longrightarrow>
      (\<forall>b. opn \<noteq> Op_ShowAboveStatusBar b) \<longrightarrow> settings s' = settings s) \<and>
   (step e (Op_SetMode m) s = Inr s' \<longrightarrow>
      settings s' = (settings s)(''NowPlayingWidget/mode'' \<mapsto>
                       QVariant_int (int_of_Mode e (Mode_of_int e m)))) \<and>
   step e (Op_ShowAboveStatusBar b) s =
     Inr (s\<lparr>settings := (settings s)(''NowPlayingWidget/above_status_bar'' \<mapsto> QVariant_bool b),
           emitted_ShowAboveStatusBarChanged := emitted_ShowAboveStatusBarChanged s @ [b]\<rparr>)"
  using step_settings_frame [of e opn s s'] SetMode_frame(2) [of e m s s']
  by (simp add: ShowAboveStatusBar_def settings_setValue_def settings_key_def kSettingsGroup_def)

lemma ready0_settings: "settings ready0 = Map.empty"
  by (simp add: ready0_def constructor_settings settings_value_def settings_key_def)

lemma playing0_settings: "settings playing0 = Map.empty"
  using NowPlaying_frame(2) [OF playing0_run] by (simp add: ready0_settings)

lemma env0_mode: "int_of_Mode env0 (Mode_of_int env0 1) = 1"
  by (simp add: env0_def)

lemmas large0_settings = ready0_settings playing0_settings env0_mode

theorem settings_written_by_two_operations_witness:
  "step env0 (Op_NowPlaying song1) ready0 = Inr playing0 \<and>
   settings playing0 = settings ready0 \<and>
   step env0 (Op_SetMode 1) playing0 = Inr large0 \<and>
   settings large0 = [''NowPlayingWidget/mode'' \<mapsto> QVariant_int 1] \<and>
   settings (ShowAboveStatusBar True ready0) =
     [''NowPlayingWidget/above_status_bar'' \<mapsto> QVariant_bool True]"
  using settings_written_by_two_operations [of env0 "Op_NowPlaying song1" ready0 playing0]
    settings_written_by_two_operations [of env0 _ playing0 large0 1]
    settings_written_by_two_operations [of env0 _ ready0 _ _ True]
    playing0_run large0_run
  by (simp add: large0_settings)

text \<open>
  C2 as stated, that no operation modifies the settings, fails: choosing the large
  mode on the playing widget changes them, and so does \<open>ShowAboveStatusBar\<close>.
\<close>

theorem settings_modified_counterexample:
  "step env0 (Op_SetMode 1) playing0 = Inr large0 \<and>
   settings large0 \<noteq> settings playing0 \<and>
   settings (ShowAboveStatusBar True ready0) \<noteq> settings ready0"
proof -
  have "settings large0 ''NowPlayingWidget/mode'' = Some (QVariant_int 1)"
    using SetMode_frame(2) [OF large0_run]
    by (simp add: settings_setValue_def settings_key_def kSettingsGroup_def large0_settings)
  then have a: "settings large0 \<noteq> settings playing0"
    by (auto simp: playing0_settings)
  have "settings (ShowAboveStatusBar True ready0) ''NowPlayingWidget/above_status_bar'' =
          Some (QVariant_bool True)"
    by (simp add: ShowAboveStatusBar_def settings_setValue_def settings_key_def kSettingsGroup_def)
  then have b: "settings (ShowAboveStatusBar True ready0) \<noteq> settings ready0"
    by (auto simp: ready0_settings)
  show ?thesis
    using a b large0_run by simp
qed

text \<open>
  C6, as amended. When the file dialog returns no name, when the chosen file gives a
  null image, or when the URL dialog or the cover search returns a null image, the
  operation returns early: no album art is set, and the metadata, the backend and the
  rest of the state are as before, except that \<open>LoadCoverFromURL\<close> has created its
  dialog (\<open>cover_from_url_dialog_\<close>) if there was none. Built without the last.fm
  library, \<open>LoadCoverFromFile\<close> and \<open>SearchCover\<close> do nothing at all.
\<close>

theorem null_cover_changes_nothing_but_the_dialog:
  "(HAVE_LIBLASTFM e \<longrightarrow>
      f (tr e ''Choose manual cover'') (initial_path e s)
        (tr e (kImageFileFilter e) @ '';;'' @ tr e (kAllFilesFilter e)) = None \<longrightarrow>
      LoadCoverFromFile e f s = Inr s) \<and>
   (HAVE_LIBLASTFM e \<longrightarrow>
      f (tr e ''Choose manual cover'') (initial_path e s)
        (tr e (kImageFileFilter e) @ '';;'' @ tr e (kAllFilesFilter e)) = Some c \<longrightarrow>
      QImage_isNull (QImage_of_file e c) \<longrightarrow>
      LoadCoverFromFile e f s = Inr s) \<and>
   (\<not> HAVE_LIBLASTFM e \<longrightarrow> LoadCoverFromFile e f s = Inr s \<and> SearchCover e g s = Inr s) \<and>
   (QImage_isNull (g (search_query s)) \<longrightarrow> SearchCover e g s = Inr s) \<and>
   (QImage_isNull img \<longrightarrow>
      LoadCoverFromURL e img s =
        Inr (s\<lparr>cover_from_url_dialog := Some CoverFromURLDialog\<rparr>)) \<and>
   (QImage_isNull img \<longrightarrow> cover_from_url_dialog s \<noteq> None \<longrightarrow>
      LoadCoverFromURL e img s = Inr s)"
proof -
  have "s\<lparr>cover_from_url_dialog := Some CoverFromURLDialog\<rparr> = s"
    if "cover_from_url_dialog s \<noteq> None"
    using url_dialog_eq [of s] that by simp
  then show ?thesis
    unfolding LoadCoverFromURL_def Let_def url_dialog_eq
    by (simp add: LoadCoverFromFile_def SearchCover_def Let_def)
qed

theorem null_cover_changes_nothing_but_the_dialog_witness:
  "HAVE_LIBLASTFM env0 \<and>
   LoadCoverFromFile env0 (\<lambda>caption dir filter. None) playing0 = Inr playing0 \<and>
   QImage_isNull (QImage_of_file env0 ''/broken.jpg'') \<and>
   LoadCoverFromFile env0 (\<lambda>caption dir filter. Some ''/broken.jpg'') playing0 = Inr playing0 \<and>
   \<not> HAVE_LIBLASTFM (env0\<lparr>HAVE_LIBLASTFM := False\<rparr>) \<and>
   LoadCoverFromFile (env0\<lparr>HAVE_LIBLASTFM := False\<rparr>)
     (\<lambda>caption dir filter. Some ''/covers/b.jpg'') playing0 = Inr playing0 \<and>
   SearchCover (env0\<lparr>HAVE_LIBLASTFM := False\<rparr>) (\<lambda>q. QImage_data ''found'') playing0 =
     Inr playing0 \<and>
   QImage_isNull QImage_null \<and>
   SearchCover env0 (\<lambda>q. QImage_null) playing0 = Inr playing0 \<and>
   LoadCoverFromURL env0 QImage_null playing0 =
     Inr (playing0\<lparr>cover_from_url_dialog := Some CoverFromURLDialog\<rparr>) \<and>
   cover_from_url_dialog (playing0\<lparr>cover_from_url_dialog := Some CoverFromURLDialog\<rparr>) \<noteq> None \<and>
   LoadCoverFromURL env0 QImage_null
     (playing0\<lparr>cover_from_url_dialog := Some CoverFromURLDialog\<rparr>) =
     Inr (playing0\<lparr>cover_from_url_dialog := Some CoverFromURLDialog\<rparr>)"
  using null_cover_changes_nothing_but_the_dialog
      [of env0 "\<lambda>caption dir filter. None" playing0 _ "\<lambda>q. QImage_null" QImage_null]
    null_cover_changes_nothing_but_the_dialog
      [of env0 "\<lambda>caption dir filter. Some ''/broken.jpg''" playing0 "''/broken.jpg''"]
    null_cover_changes_nothing_but_the_dialog
      [of "env0\<lparr>HAVE_LIBLASTFM := False\<rparr>" "\<lambda>caption dir filter. Some ''/covers/b.jpg''"
        playing0 _ "\<lambda>q. QImage_data ''found''"]
    null_cover_changes_nothing_but_the_dialog
      [of env0 _ "playing0\<lparr>cover_from_url_dialog := Some CoverFromURLDialog\<rparr>" _ _ QImage_null]
  by (simp add: env0_def)

lemma playing0_dialog: "cover_from_url_dialog playing0 = None"
  by code_simp

text \<open>
  C6 as stated, that all widget state is unchanged, fails for the first
  \<open>LoadCoverFromURL\<close>: with a null image it still leaves the new dialog behind.
\<close>

theorem null_url_image_counterexample:
  "QImage_isNull QImage_null \<and>
   LoadCoverFromURL env0 QImage_null playing0 \<noteq> Inr playing0 \<and>
   cover_from_url_dialog playing0 = None \<and>
   map_sum id cover_from_url_dialog (LoadCoverFromURL env0 QImage_null playing0) =
     Inr (Some CoverFromURLDialog)"
proof -
  have r: "LoadCoverFromURL env0 QImage_null playing0 =
        Inr (playing0\<lparr>cover_from_url_dialog := Some CoverFromURLDialog\<rparr>)"
    by (simp add: LoadCoverFromURL_def playing0_dialog)
  have "playing0\<lparr>cover_from_url_dialog := Some CoverFromURLDialog\<rparr> \<noteq> playing0"
  proof
    assume "playing0\<lparr>cover_from_url_dialog := Some CoverFromURLDialog\<rparr> = playing0"
    then have "cover_from_url_dialog (playing0\<lparr>cover_from_url_dialog := Some CoverFromURLDialog\<rparr>)
                 = cover_from_url_dialog playing0"
      by simp
    then show False by (simp add: playing0_dialog)
  qed
  then show ?thesis
    by (simp add: r playing0_dialog)
qed

end
